theory Spec2Isabelle
  imports Complex_Main "HOL-Library.Sublist"
begin

section \<open>UAV strategic deconfliction: the 2D and 3D detectors\<close>

text \<open>
  The two modules \<^verbatim>\<open>strategic_deconfliction_2d.py\<close> and
  \<^verbatim>\<open>strategic_deconfliction_3d.py\<close> are embedded function by function.
  Python floats are modelled as the reals: arithmetic is exact, and what is proved below is
  a property of the algorithm, not of IEEE rounding. The theorems about the detector are
  therefore stated on what the code compares and which computation it performs, and not
  on the exact value of a rounded sum or product. A waypoint is the tuple the code
  indexes, \<open>(x, y, t)\<close> or \<open>(x, y, z, t)\<close>; a fleet is the insertion-ordered dictionary
  \<open>all_drones_paths\<close>, modelled as the list of its \<open>(name, path)\<close> entries in key order, so
  that \<open>drone_names[i]\<close> and \<open>all_drones_paths[drone_names[i]]\<close> are the two components of
  the \<open>i\<close>-th entry.
\<close>

subsection \<open>Shared data\<close>

type_synonym point_2d = "real \<times> real"
type_synonym waypoint_2d = "real \<times> real \<times> real"
type_synonym point_3d = "real \<times> real \<times> real"
type_synonym waypoint_3d = "real \<times> real \<times> real \<times> real"

text \<open>The dictionary appended to \<open>conflicts\<close>; \<open>'p\<close> is the type of the location tuple.\<close>

record 'p conflict_event =
  time :: real
  location :: 'p
  distance :: real
  between :: "string \<times> string"

text \<open>
  The returned dictionary: \<open>{"status": "CLEAR"}\<close> has no \<open>conflicts\<close> key,
  \<open>{"status": "CONFLICT", "conflicts": conflicts}\<close> carries the list.
\<close>

datatype 'p report = CLEAR | CONFLICT "'p conflict_event list"

text \<open>
  Python's \<open>round(v, 2)\<close> on exact values: the nearest multiple of \<open>0.01\<close>, a tie going
  to the even one.
\<close>

definition round_half_even :: "real \<Rightarrow> int" where
  "round_half_even v =
     (let f = \<lfloor>v\<rfloor>; r = v - of_int f
      in if r < 1 / 2 then f
         else if 1 / 2 < r then f + 1
         else if even f then f else f + 1)"

definition round2 :: "real \<Rightarrow> real" where
  "round2 v = of_int (round_half_even (v * 100)) / 100"

text \<open>Lines 97-99 (2D) and 108-110 (3D): the adaptive step.\<close>

definition effective_step :: "real \<Rightarrow> real \<Rightarrow> real" where
  "effective_step time_step mission_duration =
     (if time_step \<ge> mission_duration then mission_duration / 20 else time_step)"

subsection \<open>The 2D module\<close>

definition distance_2d :: "point_2d \<Rightarrow> point_2d \<Rightarrow> real" where
  "distance_2d p1 p2 = sqrt ((fst p1 - fst p2)\<^sup>2 + (snd p1 - snd p2)\<^sup>2)"

definition timestamp_2d :: "waypoint_2d \<Rightarrow> real" where
  "timestamp_2d p = snd (snd p)"

text \<open>\<open>sorted\<close> is stable, and so is \<^const>\<open>sort_key\<close>.\<close>

definition sort_path_by_time_2d :: "waypoint_2d list \<Rightarrow> waypoint_2d list" where
  "sort_path_by_time_2d path = sort_key timestamp_2d path"

fun interpolate_2d :: "waypoint_2d \<Rightarrow> waypoint_2d \<Rightarrow> real \<Rightarrow> point_2d" where
  "interpolate_2d (x1, y1, t1) (x2, y2, t2) t =
     (if t2 = t1 then (x1, y1)
      else let ratio = (t - t1) / (t2 - t1)
           in (x1 + ratio * (x2 - x1), y1 + ratio * (y2 - y1)))"

text \<open>
  The \<open>for i in range(len(path) - 1)\<close> scan over consecutive pairs, returning at the first
  pair whose timestamps enclose \<open>t\<close>; \<open>None\<close> when the scan ends.
\<close>

fun get_position_at_time_2d :: "waypoint_2d list \<Rightarrow> real \<Rightarrow> point_2d option" where
  "get_position_at_time_2d (p # q # path) t =
     (if timestamp_2d p \<le> t \<and> t \<le> timestamp_2d q then Some (interpolate_2d p q t)
      else get_position_at_time_2d (q # path) t)"
| "get_position_at_time_2d _ t = None"

text \<open>
  The body of the \<open>while\<close> loop before \<open>t += effective_step\<close>. A position tuple is never
  empty, so \<open>if pos1 and pos2\<close> tests that neither is \<open>None\<close>.
\<close>

definition sample_step_2d ::
  "waypoint_2d list \<Rightarrow> waypoint_2d list \<Rightarrow> real \<Rightarrow> string \<Rightarrow> string \<Rightarrow>
   point_2d conflict_event list \<Rightarrow> real \<Rightarrow> point_2d conflict_event list" where
  "sample_step_2d path1 path2 safety_distance d1 d2 conflicts t =
     (case get_position_at_time_2d path1 t of
        None \<Rightarrow> conflicts
      | Some pos1 \<Rightarrow>
          (case get_position_at_time_2d path2 t of
             None \<Rightarrow> conflicts
           | Some pos2 \<Rightarrow>
               (let dist = distance_2d pos1 pos2
                in if dist \<le> safety_distance
                   then conflicts @
                     [\<lparr>time = round2 t,
                       location = (round2 (fst pos1), round2 (snd pos1)),
                       distance = round2 dist,
                       between = (d1, d2)\<rparr>]
                   else conflicts)))"

text \<open>
  \<open>while t <= end_time\<close>. Nothing in the loop itself makes it stop, so it is a partial
  function: \<open>None\<close> is the run that never returns.
\<close>

partial_function (option) sample_loop_2d ::
  "waypoint_2d list \<Rightarrow> waypoint_2d list \<Rightarrow> real \<Rightarrow> string \<Rightarrow> string \<Rightarrow> real \<Rightarrow> real \<Rightarrow>
   point_2d conflict_event list \<Rightarrow> real \<Rightarrow> point_2d conflict_event list option" where
  "sample_loop_2d path1 path2 safety_distance d1 d2 step end_time conflicts t =
     (if t \<le> end_time
      then sample_loop_2d path1 path2 safety_distance d1 d2 step end_time
             (sample_step_2d path1 path2 safety_distance d1 d2 conflicts t) (t + step)
      else Some conflicts)"

text \<open>
  The overlap window of two sorted paths of at least two waypoints:
  \<open>max(path1[0][2], path2[0][2])\<close> and \<open>min(path1[-1][2], path2[-1][2])\<close>.
\<close>

definition start_time_2d :: "waypoint_2d list \<Rightarrow> waypoint_2d list \<Rightarrow> real" where
  "start_time_2d path1 path2 = max (timestamp_2d (hd path1)) (timestamp_2d (hd path2))"

definition end_time_2d :: "waypoint_2d list \<Rightarrow> waypoint_2d list \<Rightarrow> real" where
  "end_time_2d path1 path2 = min (timestamp_2d (last path1)) (timestamp_2d (last path2))"

text \<open>The body of the two \<open>for\<close> loops for one pair of entries; each \<open>continue\<close> returns
  the list unchanged.\<close>

definition check_pair_2d ::
  "real \<Rightarrow> real \<Rightarrow> string \<times> waypoint_2d list \<Rightarrow> string \<times> waypoint_2d list \<Rightarrow>
   point_2d conflict_event list \<Rightarrow> point_2d conflict_event list option" where
  "check_pair_2d safety_distance time_step e1 e2 conflicts =
     (let d1 = fst e1; d2 = fst e2;
          path1 = sort_path_by_time_2d (snd e1);
          path2 = sort_path_by_time_2d (snd e2)
      in if length path1 < 2 \<or> length path2 < 2 then Some conflicts
         else
           let start_time = start_time_2d path1 path2;
               end_time = end_time_2d path1 path2;
               mission_duration = end_time - start_time
           in if mission_duration \<le> 0 then Some conflicts
              else
                let step = effective_step time_step mission_duration
                in if step \<le> 0 then Some conflicts
                   else sample_loop_2d path1 path2 safety_distance d1 d2 step end_time
                          conflicts (start_time + step))"

text \<open>\<open>for j in range(i + 1, len(drone_names))\<close>: the entries after the \<open>i\<close>-th.\<close>

fun inner_loop_2d ::
  "real \<Rightarrow> real \<Rightarrow> string \<times> waypoint_2d list \<Rightarrow> (string \<times> waypoint_2d list) list \<Rightarrow>
   point_2d conflict_event list \<Rightarrow> point_2d conflict_event list option" where
  "inner_loop_2d safety_distance time_step e1 [] conflicts = Some conflicts"
| "inner_loop_2d safety_distance time_step e1 (e2 # rest) conflicts =
     (case check_pair_2d safety_distance time_step e1 e2 conflicts of
        None \<Rightarrow> None
      | Some conflicts' \<Rightarrow> inner_loop_2d safety_distance time_step e1 rest conflicts')"

text \<open>\<open>for i in range(len(drone_names))\<close>.\<close>

fun outer_loop_2d ::
  "real \<Rightarrow> real \<Rightarrow> (string \<times> waypoint_2d list) list \<Rightarrow>
   point_2d conflict_event list \<Rightarrow> point_2d conflict_event list option" where
  "outer_loop_2d safety_distance time_step [] conflicts = Some conflicts"
| "outer_loop_2d safety_distance time_step (e1 # rest) conflicts =
     (case inner_loop_2d safety_distance time_step e1 rest conflicts of
        None \<Rightarrow> None
      | Some conflicts' \<Rightarrow> outer_loop_2d safety_distance time_step rest conflicts')"

definition check_all_paths_conflict_2d ::
  "(string \<times> waypoint_2d list) list \<Rightarrow> real \<Rightarrow> real \<Rightarrow> point_2d report option" where
  "check_all_paths_conflict_2d all_drones_paths safety_distance time_step =
     (case outer_loop_2d safety_distance time_step all_drones_paths [] of
        None \<Rightarrow> None
      | Some conflicts \<Rightarrow> Some (if conflicts \<noteq> [] then CONFLICT conflicts else CLEAR))"

subsection \<open>The 3D module\<close>

definition distance_3d :: "point_3d \<Rightarrow> point_3d \<Rightarrow> real" where
  "distance_3d p1 p2 =
     sqrt ((fst p1 - fst p2)\<^sup>2 + (fst (snd p1) - fst (snd p2))\<^sup>2 + (snd (snd p1) - snd (snd p2))\<^sup>2)"

definition timestamp_3d :: "waypoint_3d \<Rightarrow> real" where
  "timestamp_3d p = snd (snd (snd p))"

definition sort_path_by_time_3d :: "waypoint_3d list \<Rightarrow> waypoint_3d list" where
  "sort_path_by_time_3d path = sort_key timestamp_3d path"

fun interpolate_3d :: "waypoint_3d \<Rightarrow> waypoint_3d \<Rightarrow> real \<Rightarrow> point_3d" where
  "interpolate_3d (x1, y1, z1, t1) (x2, y2, z2, t2) t =
     (if t2 = t1 then (x1, y1, z1)
      else let ratio = (t - t1) / (t2 - t1)
           in (x1 + ratio * (x2 - x1), y1 + ratio * (y2 - y1), z1 + ratio * (z2 - z1)))"

fun get_position_at_time_3d :: "waypoint_3d list \<Rightarrow> real \<Rightarrow> point_3d option" where
  "get_position_at_time_3d (p # q # path) t =
     (if timestamp_3d p \<le> t \<and> t \<le> timestamp_3d q then Some (interpolate_3d p q t)
      else get_position_at_time_3d (q # path) t)"
| "get_position_at_time_3d _ t = None"

text \<open>The body of the \<open>while\<close> loop; \<open>tuple(round(v, 2) for v in pos1)\<close> rounds each
  of the three coordinates.\<close>

definition sample_step_3d ::
  "waypoint_3d list \<Rightarrow> waypoint_3d list \<Rightarrow> real \<Rightarrow> string \<Rightarrow> string \<Rightarrow>
   point_3d conflict_event list \<Rightarrow> real \<Rightarrow> point_3d conflict_event list" where
  "sample_step_3d path1 path2 safety_distance d1 d2 conflicts t =
     (case get_position_at_time_3d path1 t of
        None \<Rightarrow> conflicts
      | Some pos1 \<Rightarrow>
          (case get_position_at_time_3d path2 t of
             None \<Rightarrow> conflicts
           | Some pos2 \<Rightarrow>
               (let dist = distance_3d pos1 pos2
                in if dist \<le> safety_distance
                   then conflicts @
                     [\<lparr>time = round2 t,
                       location = (round2 (fst pos1), round2 (fst (snd pos1)), round2 (snd (snd pos1))),
                       distance = round2 dist,
                       between = (d1, d2)\<rparr>]
                   else conflicts)))"

partial_function (option) sample_loop_3d ::
  "waypoint_3d list \<Rightarrow> waypoint_3d list \<Rightarrow> real \<Rightarrow> string \<Rightarrow> string \<Rightarrow> real \<Rightarrow> real \<Rightarrow>
   point_3d conflict_event list \<Rightarrow> real \<Rightarrow> point_3d conflict_event list option" where
  "sample_loop_3d path1 path2 safety_distance d1 d2 step end_time conflicts t =
     (if t \<le> end_time
      then sample_loop_3d path1 path2 safety_distance d1 d2 step end_time
             (sample_step_3d path1 path2 safety_distance d1 d2 conflicts t) (t + step)
      else Some conflicts)"

text \<open>
  The overlap window of two sorted paths of at least two waypoints:
  \<open>max(path1[0][3], path2[0][3])\<close> and \<open>min(path1[-1][3], path2[-1][3])\<close>.
\<close>

definition start_time_3d :: "waypoint_3d list \<Rightarrow> waypoint_3d list \<Rightarrow> real" where
  "start_time_3d path1 path2 = max (timestamp_3d (hd path1)) (timestamp_3d (hd path2))"

definition end_time_3d :: "waypoint_3d list \<Rightarrow> waypoint_3d list \<Rightarrow> real" where
  "end_time_3d path1 path2 = min (timestamp_3d (last path1)) (timestamp_3d (last path2))"

definition check_pair_3d ::
  "real \<Rightarrow> real \<Rightarrow> string \<times> waypoint_3d list \<Rightarrow> string \<times> waypoint_3d list \<Rightarrow>
   point_3d conflict_event list \<Rightarrow> point_3d conflict_event list option" where
  "check_pair_3d safety_distance time_step e1 e2 conflicts =
     (let d1 = fst e1; d2 = fst e2;
          path1 = sort_path_by_time_3d (snd e1);
          path2 = sort_path_by_time_3d (snd e2)
      in if length path1 < 2 \<or> length path2 < 2 then Some conflicts
         else
           let start_time = start_time_3d path1 path2;
               end_time = end_time_3d path1 path2;
               mission_duration = end_time - start_time
           in if mission_duration \<le> 0 then Some conflicts
              else
                let step = effective_step time_step mission_duration
                in if step \<le> 0 then Some conflicts
                   else sample_loop_3d path1 path2 safety_distance d1 d2 step end_time
                          conflicts (start_time + step))"

fun inner_loop_3d ::
  "real \<Rightarrow> real \<Rightarrow> string \<times> waypoint_3d list \<Rightarrow> (string \<times> waypoint_3d list) list \<Rightarrow>
   point_3d conflict_event list \<Rightarrow> point_3d conflict_event list option" where
  "inner_loop_3d safety_distance time_step e1 [] conflicts = Some conflicts"
| "inner_loop_3d safety_distance time_step e1 (e2 # rest) conflicts =
     (case check_pair_3d safety_distance time_step e1 e2 conflicts of
        None \<Rightarrow> None
      | Some conflicts' \<Rightarrow> inner_loop_3d safety_distance time_step e1 rest conflicts')"

fun outer_loop_3d ::
  "real \<Rightarrow> real \<Rightarrow> (string \<times> waypoint_3d list) list \<Rightarrow>
   point_3d conflict_event list \<Rightarrow> point_3d conflict_event list option" where
  "outer_loop_3d safety_distance time_step [] conflicts = Some conflicts"
| "outer_loop_3d safety_distance time_step (e1 # rest) conflicts =
     (case inner_loop_3d safety_distance time_step e1 rest conflicts of
        None \<Rightarrow> None
      | Some conflicts' \<Rightarrow> outer_loop_3d safety_distance time_step rest conflicts')"

definition check_all_paths_conflict_3d ::
  "(string \<times> waypoint_3d list) list \<Rightarrow> real \<Rightarrow> real \<Rightarrow> point_3d report option" where
  "check_all_paths_conflict_3d all_drones_paths safety_distance time_step =
     (case outer_loop_3d safety_distance time_step all_drones_paths [] of
        None \<Rightarrow> None
      | Some conflicts \<Rightarrow> Some (if conflicts \<noteq> [] then CONFLICT conflicts else CLEAR))"

subsection \<open>Derived notions\<close>

text \<open>
  The values \<open>t\<close> takes in \<open>while t <= end_time: ...; t += step\<close>, for a positive step
  (the only steps the loop is entered with).
\<close>

function sample_times :: "real \<Rightarrow> real \<Rightarrow> real \<Rightarrow> real list" where
  "sample_times step end_time t =
     (if 0 < step \<and> t \<le> end_time then t # sample_times step end_time (t + step) else [])"
  by pat_completeness auto
termination
proof (relation "measure (\<lambda>(step, end_time, t). nat (\<lfloor>(end_time - t) / step\<rfloor> + 1))")
  fix step end_time t :: real
  assume a: "0 < step \<and> t \<le> end_time"
  have "(end_time - (t + step)) / step = (end_time - t) / step - 1"
    using a by (simp add: field_simps)
  moreover have "0 \<le> \<lfloor>(end_time - t) / step\<rfloor>" using a by simp
  ultimately show "((step, end_time, t + step), (step, end_time, t))
      \<in> measure (\<lambda>(step, end_time, t). nat (\<lfloor>(end_time - t) / step\<rfloor> + 1))"
    by simp
qed simp

declare sample_times.simps [simp del]

text \<open>The event one sample appends, if any.\<close>

definition sample_event_2d ::
  "waypoint_2d list \<Rightarrow> waypoint_2d list \<Rightarrow> real \<Rightarrow> string \<Rightarrow> string \<Rightarrow> real \<Rightarrow>
   point_2d conflict_event option" where
  "sample_event_2d path1 path2 safety_distance d1 d2 t =
     (case get_position_at_time_2d path1 t of
        None \<Rightarrow> None
      | Some pos1 \<Rightarrow>
          (case get_position_at_time_2d path2 t of
             None \<Rightarrow> None
           | Some pos2 \<Rightarrow>
               if distance_2d pos1 pos2 \<le> safety_distance
               then Some \<lparr>time = round2 t,
                       location = (round2 (fst pos1), round2 (snd pos1)),
                       distance = round2 (distance_2d pos1 pos2),
                       between = (d1, d2)\<rparr>
               else None))"

definition sample_event_3d ::
  "waypoint_3d list \<Rightarrow> waypoint_3d list \<Rightarrow> real \<Rightarrow> string \<Rightarrow> string \<Rightarrow> real \<Rightarrow>
   point_3d conflict_event option" where
  "sample_event_3d path1 path2 safety_distance d1 d2 t =
     (case get_position_at_time_3d path1 t of
        None \<Rightarrow> None
      | Some pos1 \<Rightarrow>
          (case get_position_at_time_3d path2 t of
             None \<Rightarrow> None
           | Some pos2 \<Rightarrow>
               if distance_3d pos1 pos2 \<le> safety_distance
               then Some \<lparr>time = round2 t,
                       location = (round2 (fst pos1), round2 (fst (snd pos1)), round2 (snd (snd pos1))),
                       distance = round2 (distance_3d pos1 pos2),
                       between = (d1, d2)\<rparr>
               else None))"

text \<open>The events one pair of entries contributes, and those of the whole fleet.\<close>

definition pair_events_2d ::
  "real \<Rightarrow> real \<Rightarrow> string \<times> waypoint_2d list \<Rightarrow> string \<times> waypoint_2d list \<Rightarrow>
   point_2d conflict_event list" where
  "pair_events_2d safety_distance time_step e1 e2 =
     (let path1 = sort_path_by_time_2d (snd e1);
          path2 = sort_path_by_time_2d (snd e2);
          start_time = start_time_2d path1 path2;
          end_time = end_time_2d path1 path2;
          step = effective_step time_step (end_time - start_time)
      in if length path1 < 2 \<or> length path2 < 2 \<or> end_time - start_time \<le> 0 then []
         else List.map_filter (sample_event_2d path1 path2 safety_distance (fst e1) (fst e2))
                (sample_times step end_time (start_time + step)))"

definition pair_events_3d ::
  "real \<Rightarrow> real \<Rightarrow> string \<times> waypoint_3d list \<Rightarrow> string \<times> waypoint_3d list \<Rightarrow>
   point_3d conflict_event list" where
  "pair_events_3d safety_distance time_step e1 e2 =
     (let path1 = sort_path_by_time_3d (snd e1);
          path2 = sort_path_by_time_3d (snd e2);
          start_time = start_time_3d path1 path2;
          end_time = end_time_3d path1 path2;
          step = effective_step time_step (end_time - start_time)
      in if length path1 < 2 \<or> length path2 < 2 \<or> end_time - start_time \<le> 0 then []
         else List.map_filter (sample_event_3d path1 path2 safety_distance (fst e1) (fst e2))
                (sample_times step end_time (start_time + step)))"

fun entry_pairs :: "'a list \<Rightarrow> ('a \<times> 'a) list" where
  "entry_pairs [] = []"
| "entry_pairs (e1 # rest) = map (Pair e1) rest @ entry_pairs rest"

definition fleet_events_2d ::
  "(string \<times> waypoint_2d list) list \<Rightarrow> real \<Rightarrow> real \<Rightarrow> point_2d conflict_event list" where
  "fleet_events_2d all_drones_paths safety_distance time_step =
     concat (map (\<lambda>(e1, e2). pair_events_2d safety_distance time_step e1 e2)
       (entry_pairs all_drones_paths))"

definition fleet_events_3d ::
  "(string \<times> waypoint_3d list) list \<Rightarrow> real \<Rightarrow> real \<Rightarrow> point_3d conflict_event list" where
  "fleet_events_3d all_drones_paths safety_distance time_step =
     concat (map (\<lambda>(e1, e2). pair_events_3d safety_distance time_step e1 e2)
       (entry_pairs all_drones_paths))"

text \<open>The event sequence a caller reads from a report: \<open>result["conflicts"]\<close> under
  \<open>CONFLICT\<close>, nothing under \<open>CLEAR\<close>.\<close>

fun conflicts_of :: "'p report \<Rightarrow> 'p conflict_event list" where
  "conflicts_of CLEAR = []"
| "conflicts_of (CONFLICT conflicts) = conflicts"

text \<open>The value under the key \<open>"status"\<close>.\<close>

fun status :: "'p report \<Rightarrow> string" where
  "status CLEAR = ''CLEAR''"
| "status (CONFLICT conflicts) = ''CONFLICT''"

text \<open>A 2D fleet seen as a 3D one at altitude 0.\<close>

fun lift_waypoint :: "waypoint_2d \<Rightarrow> waypoint_3d" where
  "lift_waypoint (x, y, t) = (x, y, 0, t)"

definition lift_fleet ::
  "(string \<times> waypoint_2d list) list \<Rightarrow> (string \<times> waypoint_3d list) list" where
  "lift_fleet all_drones_paths = map (\<lambda>(d, path). (d, map lift_waypoint path)) all_drones_paths"

definition lift_event :: "point_2d conflict_event \<Rightarrow> point_3d conflict_event" where
  "lift_event e =
     \<lparr>time = time e, location = (fst (location e), snd (location e), 0),
      distance = distance e, between = between e\<rparr>"

fun lift_report :: "point_2d report \<Rightarrow> point_3d report" where
  "lift_report CLEAR = CLEAR"
| "lift_report (CONFLICT conflicts) = CONFLICT (map lift_event conflicts)"


text \<open>
  Two events of the same sample, one from each order of the pair: same time and distance,
  the labels swapped, and each located at the position of the drone that comes first.
\<close>

definition mirrored_2d ::
  "waypoint_2d list \<Rightarrow> waypoint_2d list \<Rightarrow> string \<Rightarrow> string \<Rightarrow>
   point_2d conflict_event \<Rightarrow> point_2d conflict_event \<Rightarrow> bool" where
  "mirrored_2d path1 path2 d1 d2 e e' =
     (\<exists>t pos1 pos2.
        get_position_at_time_2d path1 t = Some pos1 \<and>
        get_position_at_time_2d path2 t = Some pos2 \<and>
        e = \<lparr>time = round2 t, location = (round2 (fst pos1), round2 (snd pos1)),
             distance = round2 (distance_2d pos1 pos2), between = (d1, d2)\<rparr> \<and>
        e' = \<lparr>time = round2 t, location = (round2 (fst pos2), round2 (snd pos2)),
              distance = round2 (distance_2d pos1 pos2), between = (d2, d1)\<rparr>)"

definition mirrored_3d ::
  "waypoint_3d list \<Rightarrow> waypoint_3d list \<Rightarrow> string \<Rightarrow> string \<Rightarrow>
   point_3d conflict_event \<Rightarrow> point_3d conflict_event \<Rightarrow> bool" where
  "mirrored_3d path1 path2 d1 d2 e e' =
     (\<exists>t pos1 pos2.
        get_position_at_time_3d path1 t = Some pos1 \<and>
        get_position_at_time_3d path2 t = Some pos2 \<and>
        e = \<lparr>time = round2 t, location = (round2 (fst pos1), round2 (fst (snd pos1)), round2 (snd (snd pos1))),
             distance = round2 (distance_3d pos1 pos2), between = (d1, d2)\<rparr> \<and>
        e' = \<lparr>time = round2 t, location = (round2 (fst pos2), round2 (fst (snd pos2)), round2 (snd (snd pos2))),
              distance = round2 (distance_3d pos1 pos2), between = (d2, d1)\<rparr>)"

definition lift_point :: "point_2d \<Rightarrow> point_3d" where
  "lift_point pos = (fst pos, snd pos, 0)"

text \<open>
  The overlap duration of a pair of entries, and the pairs that reach the adaptive step:
  both paths have at least two waypoints and the overlap duration is positive.
\<close>

definition pair_duration_2d :: "string \<times> waypoint_2d list \<Rightarrow> string \<times> waypoint_2d list \<Rightarrow> real" where
  "pair_duration_2d e1 e2 =
     end_time_2d (sort_path_by_time_2d (snd e1)) (sort_path_by_time_2d (snd e2))
     - start_time_2d (sort_path_by_time_2d (snd e1)) (sort_path_by_time_2d (snd e2))"

definition scanned_2d :: "string \<times> waypoint_2d list \<Rightarrow> string \<times> waypoint_2d list \<Rightarrow> bool" where
  "scanned_2d e1 e2 =
     (2 \<le> length (snd e1) \<and> 2 \<le> length (snd e2) \<and> 0 < pair_duration_2d e1 e2)"

definition pair_duration_3d :: "string \<times> waypoint_3d list \<Rightarrow> string \<times> waypoint_3d list \<Rightarrow> real" where
  "pair_duration_3d e1 e2 =
     end_time_3d (sort_path_by_time_3d (snd e1)) (sort_path_by_time_3d (snd e2))
     - start_time_3d (sort_path_by_time_3d (snd e1)) (sort_path_by_time_3d (snd e2))"

definition scanned_3d :: "string \<times> waypoint_3d list \<Rightarrow> string \<times> waypoint_3d list \<Rightarrow> bool" where
  "scanned_3d e1 e2 =
     (2 \<le> length (snd e1) \<and> 2 \<le> length (snd e2) \<and> 0 < pair_duration_3d e1 e2)"

section \<open>The loops in closed form\<close>

text \<open>
  The sampling loop is entered with a positive step only, and then it returns: its result
  is the incoming list followed by the events of the sample times. The pair body and the
  two \<open>for\<close> loops follow, so the detector returns on every input.
\<close>

lemma sample_times_nonpos: "\<not> 0 < step \<Longrightarrow> sample_times step e t = []"
  by (subst sample_times.simps) simp

lemma sample_step_2d_eq:
  "sample_step_2d p1 p2 sd d1 d2 conflicts t =
     conflicts @ (case sample_event_2d p1 p2 sd d1 d2 t of None \<Rightarrow> [] | Some e \<Rightarrow> [e])"
  by (simp add: sample_step_2d_def sample_event_2d_def Let_def split: option.splits)

lemma sample_loop_2d_eq:
  "0 < step \<Longrightarrow>
   sample_loop_2d p1 p2 sd d1 d2 step e conflicts t =
     Some (conflicts @ List.map_filter (sample_event_2d p1 p2 sd d1 d2) (sample_times step e t))"
proof (induction step e t arbitrary: conflicts rule: sample_times.induct)
  case (1 step e t)
  show ?case
  proof (cases "t \<le> e")
    case True
    have "sample_loop_2d p1 p2 sd d1 d2 step e conflicts t =
          sample_loop_2d p1 p2 sd d1 d2 step e (sample_step_2d p1 p2 sd d1 d2 conflicts t) (t + step)"
      using True by (subst sample_loop_2d.simps) simp
    also have "\<dots> = Some (sample_step_2d p1 p2 sd d1 d2 conflicts t @
        List.map_filter (sample_event_2d p1 p2 sd d1 d2) (sample_times step e (t + step)))"
      using "1.IH" "1.prems" True by simp
    also have "\<dots> = Some (conflicts @
        List.map_filter (sample_event_2d p1 p2 sd d1 d2) (sample_times step e t))"
      using True "1.prems"
      by (subst (2) sample_times.simps) (simp add: sample_step_2d_eq split: option.splits)
    finally show ?thesis .
  next
    case False
    then show ?thesis
      by (subst sample_loop_2d.simps, subst sample_times.simps) simp
  qed
qed

lemma check_pair_2d_eq:
  "check_pair_2d sd ts e1 e2 conflicts = Some (conflicts @ pair_events_2d sd ts e1 e2)"
proof (cases "0 < effective_step ts
    (end_time_2d (sort_path_by_time_2d (snd e1)) (sort_path_by_time_2d (snd e2))
     - start_time_2d (sort_path_by_time_2d (snd e1)) (sort_path_by_time_2d (snd e2)))")
  case True
  then show ?thesis
    by (simp add: check_pair_2d_def pair_events_2d_def Let_def sample_loop_2d_eq)
next
  case False
  then show ?thesis
    by (simp add: check_pair_2d_def pair_events_2d_def Let_def sample_times_nonpos)
qed

lemma inner_loop_2d_eq:
  "inner_loop_2d sd ts e1 rest conflicts =
     Some (conflicts @ concat (map (\<lambda>e2. pair_events_2d sd ts e1 e2) rest))"
  by (induction rest arbitrary: conflicts) (simp_all add: check_pair_2d_eq)

lemma outer_loop_2d_eq:
  "outer_loop_2d sd ts fleet conflicts = Some (conflicts @ fleet_events_2d fleet sd ts)"
  by (induction fleet arbitrary: conflicts)
     (simp_all add: inner_loop_2d_eq fleet_events_2d_def comp_def)

lemma check_all_paths_conflict_2d_eq:
  "check_all_paths_conflict_2d fleet sd ts =
     Some (if fleet_events_2d fleet sd ts \<noteq> [] then CONFLICT (fleet_events_2d fleet sd ts)
           else CLEAR)"
  by (simp add: check_all_paths_conflict_2d_def outer_loop_2d_eq)

lemma sample_step_3d_eq:
  "sample_step_3d p1 p2 sd d1 d2 conflicts t =
     conflicts @ (case sample_event_3d p1 p2 sd d1 d2 t of None \<Rightarrow> [] | Some e \<Rightarrow> [e])"
  by (simp add: sample_step_3d_def sample_event_3d_def Let_def split: option.splits)

lemma sample_loop_3d_eq:
  "0 < step \<Longrightarrow>
   sample_loop_3d p1 p2 sd d1 d2 step e conflicts t =
     Some (conflicts @ List.map_filter (sample_event_3d p1 p2 sd d1 d2) (sample_times step e t))"
proof (induction step e t arbitrary: conflicts rule: sample_times.induct)
  case (1 step e t)
  show ?case
  proof (cases "t \<le> e")
    case True
    have "sample_loop_3d p1 p2 sd d1 d2 step e conflicts t =
          sample_loop_3d p1 p2 sd d1 d2 step e (sample_step_3d p1 p2 sd d1 d2 conflicts t) (t + step)"
      using True by (subst sample_loop_3d.simps) simp
    also have "\<dots> = Some (sample_step_3d p1 p2 sd d1 d2 conflicts t @
        List.map_filter (sample_event_3d p1 p2 sd d1 d2) (sample_times step e (t + step)))"
      using "1.IH" "1.prems" True by simp
    also have "\<dots> = Some (conflicts @
        List.map_filter (sample_event_3d p1 p2 sd d1 d2) (sample_times step e t))"
      using True "1.prems"
      by (subst (2) sample_times.simps) (simp add: sample_step_3d_eq split: option.splits)
    finally show ?thesis .
  next
    case False
    then show ?thesis
      by (subst sample_loop_3d.simps, subst sample_times.simps) simp
  qed
qed

lemma check_pair_3d_eq:
  "check_pair_3d sd ts e1 e2 conflicts = Some (conflicts @ pair_events_3d sd ts e1 e2)"
proof (cases "0 < effective_step ts
    (end_time_3d (sort_path_by_time_3d (snd e1)) (sort_path_by_time_3d (snd e2))
     - start_time_3d (sort_path_by_time_3d (snd e1)) (sort_path_by_time_3d (snd e2)))")
  case True
  then show ?thesis
    by (simp add: check_pair_3d_def pair_events_3d_def Let_def sample_loop_3d_eq)
next
  case False
  then show ?thesis
    by (simp add: check_pair_3d_def pair_events_3d_def Let_def sample_times_nonpos)
qed

lemma inner_loop_3d_eq:
  "inner_loop_3d sd ts e1 rest conflicts =
     Some (conflicts @ concat (map (\<lambda>e2. pair_events_3d sd ts e1 e2) rest))"
  by (induction rest arbitrary: conflicts) (simp_all add: check_pair_3d_eq)

lemma outer_loop_3d_eq:
  "outer_loop_3d sd ts fleet conflicts = Some (conflicts @ fleet_events_3d fleet sd ts)"
  by (induction fleet arbitrary: conflicts)
     (simp_all add: inner_loop_3d_eq fleet_events_3d_def comp_def)

lemma check_all_paths_conflict_3d_eq:
  "check_all_paths_conflict_3d fleet sd ts =
     Some (if fleet_events_3d fleet sd ts \<noteq> [] then CONFLICT (fleet_events_3d fleet sd ts)
           else CLEAR)"
  by (simp add: check_all_paths_conflict_3d_def outer_loop_3d_eq)

section \<open>Pairs that contribute nothing\<close>

lemma set_entry_pairs:
  "(a, b) \<in> set (entry_pairs xs) \<Longrightarrow> a \<in> set xs \<and> b \<in> set xs"
  by (induction xs) auto

lemma effective_step_nonpos:
  "ts \<le> 0 \<Longrightarrow> 0 < d \<Longrightarrow> effective_step ts d = ts"
  by (simp add: effective_step_def)

lemma pair_events_2d_degenerate:
  "length (snd e1) < 2 \<or> length (snd e2) < 2 \<Longrightarrow> pair_events_2d sd ts e1 e2 = []"
  by (auto simp: pair_events_2d_def sort_path_by_time_2d_def Let_def)

lemma pair_events_2d_nonpos_step:
  assumes "ts \<le> 0"
  shows "pair_events_2d sd ts e1 e2 = []"
proof -
  define d where "d = end_time_2d (sort_path_by_time_2d (snd e1)) (sort_path_by_time_2d (snd e2))
     - start_time_2d (sort_path_by_time_2d (snd e1)) (sort_path_by_time_2d (snd e2))"
  show ?thesis
  proof (cases "d \<le> 0")
    case True
    then show ?thesis by (simp add: pair_events_2d_def Let_def d_def)
  next
    case False
    then have "\<not> 0 < effective_step ts d"
      using assms by (simp add: effective_step_nonpos)
    then show ?thesis
      by (simp add: pair_events_2d_def Let_def sample_times_nonpos flip: d_def)
  qed
qed

lemma fleet_events_2d_Nil:
  "(\<And>e1 e2. e1 \<in> set fleet \<Longrightarrow> e2 \<in> set fleet \<Longrightarrow> pair_events_2d sd ts e1 e2 = []) \<Longrightarrow>
   fleet_events_2d fleet sd ts = []"
  by (auto simp: fleet_events_2d_def dest: set_entry_pairs)

lemma fleet_events_2d_degenerate:
  "\<forall>e \<in> set fleet. length (snd e) < 2 \<Longrightarrow> fleet_events_2d fleet sd ts = []"
  by (rule fleet_events_2d_Nil) (simp add: pair_events_2d_degenerate)

lemma fleet_events_2d_nonpos_step:
  "ts \<le> 0 \<Longrightarrow> fleet_events_2d fleet sd ts = []"
  by (rule fleet_events_2d_Nil) (simp add: pair_events_2d_nonpos_step)

lemma fleet_events_2d_small:
  "fleet_events_2d [] sd ts = []" "fleet_events_2d [e] sd ts = []"
  by (simp_all add: fleet_events_2d_def)

lemma pair_events_3d_degenerate:
  "length (snd e1) < 2 \<or> length (snd e2) < 2 \<Longrightarrow> pair_events_3d sd ts e1 e2 = []"
  by (auto simp: pair_events_3d_def sort_path_by_time_3d_def Let_def)

lemma pair_events_3d_nonpos_step:
  assumes "ts \<le> 0"
  shows "pair_events_3d sd ts e1 e2 = []"
proof -
  define d where "d = end_time_3d (sort_path_by_time_3d (snd e1)) (sort_path_by_time_3d (snd e2))
     - start_time_3d (sort_path_by_time_3d (snd e1)) (sort_path_by_time_3d (snd e2))"
  show ?thesis
  proof (cases "d \<le> 0")
    case True
    then show ?thesis by (simp add: pair_events_3d_def Let_def d_def)
  next
    case False
    then have "\<not> 0 < effective_step ts d"
      using assms by (simp add: effective_step_nonpos)
    then show ?thesis
      by (simp add: pair_events_3d_def Let_def sample_times_nonpos flip: d_def)
  qed
qed

lemma fleet_events_3d_Nil:
  "(\<And>e1 e2. e1 \<in> set fleet \<Longrightarrow> e2 \<in> set fleet \<Longrightarrow> pair_events_3d sd ts e1 e2 = []) \<Longrightarrow>
   fleet_events_3d fleet sd ts = []"
  by (auto simp: fleet_events_3d_def dest: set_entry_pairs)

lemma fleet_events_3d_degenerate:
  "\<forall>e \<in> set fleet. length (snd e) < 2 \<Longrightarrow> fleet_events_3d fleet sd ts = []"
  by (rule fleet_events_3d_Nil) (simp add: pair_events_3d_degenerate)

lemma fleet_events_3d_nonpos_step:
  "ts \<le> 0 \<Longrightarrow> fleet_events_3d fleet sd ts = []"
  by (rule fleet_events_3d_Nil) (simp add: pair_events_3d_nonpos_step)

lemma fleet_events_3d_small:
  "fleet_events_3d [] sd ts = []" "fleet_events_3d [e] sd ts = []"
  by (simp_all add: fleet_events_3d_def)

section \<open>Evaluation on concrete fleets\<close>

lemma distance_2d_same_y: "distance_2d (x1, y) (x2, y) = \<bar>x1 - x2\<bar>"
  by (simp add: distance_2d_def)

lemma distance_3d_same_yz: "distance_3d (x1, y, z) (x2, y, z) = \<bar>x1 - x2\<bar>"
  by (simp add: distance_3d_def)

lemmas eval_2d = check_all_paths_conflict_2d_def check_pair_2d_def sort_path_by_time_2d_def
  start_time_2d_def end_time_2d_def timestamp_2d_def effective_step_def sample_loop_2d.simps
  sample_step_2d_def distance_2d_same_y Let_def round2_def round_half_even_def

lemmas eval_3d = check_all_paths_conflict_3d_def check_pair_3d_def sort_path_by_time_3d_def
  start_time_3d_def end_time_3d_def timestamp_3d_def effective_step_def sample_loop_3d.simps
  sample_step_3d_def distance_3d_same_yz Let_def round2_def round_half_even_def

section \<open>The report\<close>

text \<open>
  Claim C7. Whenever the two loops finish with a list of events, the detector returns a
  report that carries exactly that list, with status CONFLICT when the list is non-empty
  and CLEAR when it is empty; and every report the detector returns arises that way, so
  its status is CONFLICT exactly when its event sequence is non-empty and CLEAR exactly
  when it is empty. An empty fleet, a fleet of one drone and a fleet whose trajectories
  all have fewer than two waypoints give the CLEAR report. Both modules.
\<close>

theorem report_status_iff_conflicts:
  "(\<forall>evs. outer_loop_2d sd ts fleet2 [] = Some evs \<longrightarrow>
       (\<exists>r. check_all_paths_conflict_2d fleet2 sd ts = Some r \<and> conflicts_of r = evs
          \<and> (status r = ''CONFLICT'' \<longleftrightarrow> evs \<noteq> [])
          \<and> (status r = ''CLEAR'' \<longleftrightarrow> evs = [])))
   \<and> (\<forall>r. check_all_paths_conflict_2d fleet2 sd ts = Some r \<longrightarrow>
       outer_loop_2d sd ts fleet2 [] = Some (conflicts_of r)
       \<and> (status r = ''CONFLICT'' \<longleftrightarrow> conflicts_of r \<noteq> [])
       \<and> (status r = ''CLEAR'' \<longleftrightarrow> conflicts_of r = []))
   \<and> check_all_paths_conflict_2d [] sd ts = Some CLEAR
   \<and> check_all_paths_conflict_2d [e2] sd ts = Some CLEAR
   \<and> ((\<forall>e \<in> set fleet2. length (snd e) < 2) \<longrightarrow>
        check_all_paths_conflict_2d fleet2 sd ts = Some CLEAR)
   \<and> (\<forall>evs. outer_loop_3d sd ts fleet3 [] = Some evs \<longrightarrow>
       (\<exists>r. check_all_paths_conflict_3d fleet3 sd ts = Some r \<and> conflicts_of r = evs
          \<and> (status r = ''CONFLICT'' \<longleftrightarrow> evs \<noteq> [])
          \<and> (status r = ''CLEAR'' \<longleftrightarrow> evs = [])))
   \<and> (\<forall>r. check_all_paths_conflict_3d fleet3 sd ts = Some r \<longrightarrow>
       outer_loop_3d sd ts fleet3 [] = Some (conflicts_of r)
       \<and> (status r = ''CONFLICT'' \<longleftrightarrow> conflicts_of r \<noteq> [])
       \<and> (status r = ''CLEAR'' \<longleftrightarrow> conflicts_of r = []))
   \<and> check_all_paths_conflict_3d [] sd ts = Some CLEAR
   \<and> check_all_paths_conflict_3d [e3] sd ts = Some CLEAR
   \<and> ((\<forall>e \<in> set fleet3. length (snd e) < 2) \<longrightarrow>
        check_all_paths_conflict_3d fleet3 sd ts = Some CLEAR)"
proof -
  have from_loops_2d: "\<forall>evs. outer_loop_2d sd ts fleet2 [] = Some evs \<longrightarrow>
       (\<exists>r. check_all_paths_conflict_2d fleet2 sd ts = Some r \<and> conflicts_of r = evs
          \<and> (status r = ''CONFLICT'' \<longleftrightarrow> evs \<noteq> [])
          \<and> (status r = ''CLEAR'' \<longleftrightarrow> evs = []))"
    by (simp add: check_all_paths_conflict_2d_def)
  have to_loops_2d: "\<forall>r. check_all_paths_conflict_2d fleet2 sd ts = Some r \<longrightarrow>
       outer_loop_2d sd ts fleet2 [] = Some (conflicts_of r)
       \<and> (status r = ''CONFLICT'' \<longleftrightarrow> conflicts_of r \<noteq> [])
       \<and> (status r = ''CLEAR'' \<longleftrightarrow> conflicts_of r = [])"
    by (auto simp: check_all_paths_conflict_2d_def split: option.splits if_splits)
  have from_loops_3d: "\<forall>evs. outer_loop_3d sd ts fleet3 [] = Some evs \<longrightarrow>
       (\<exists>r. check_all_paths_conflict_3d fleet3 sd ts = Some r \<and> conflicts_of r = evs
          \<and> (status r = ''CONFLICT'' \<longleftrightarrow> evs \<noteq> [])
          \<and> (status r = ''CLEAR'' \<longleftrightarrow> evs = []))"
    by (simp add: check_all_paths_conflict_3d_def)
  have to_loops_3d: "\<forall>r. check_all_paths_conflict_3d fleet3 sd ts = Some r \<longrightarrow>
       outer_loop_3d sd ts fleet3 [] = Some (conflicts_of r)
       \<and> (status r = ''CONFLICT'' \<longleftrightarrow> conflicts_of r \<noteq> [])
       \<and> (status r = ''CLEAR'' \<longleftrightarrow> conflicts_of r = [])"
    by (auto simp: check_all_paths_conflict_3d_def split: option.splits if_splits)
  have small_2d: "check_all_paths_conflict_2d [] sd ts = Some CLEAR"
      "check_all_paths_conflict_2d [e2] sd ts = Some CLEAR"
    by (simp_all add: check_all_paths_conflict_2d_def)
  have small_3d: "check_all_paths_conflict_3d [] sd ts = Some CLEAR"
      "check_all_paths_conflict_3d [e3] sd ts = Some CLEAR"
    by (simp_all add: check_all_paths_conflict_3d_def)
  have degenerate_2d: "(\<forall>e \<in> set fleet2. length (snd e) < 2) \<longrightarrow>
        check_all_paths_conflict_2d fleet2 sd ts = Some CLEAR"
    by (simp add: check_all_paths_conflict_2d_eq fleet_events_2d_degenerate)
  have degenerate_3d: "(\<forall>e \<in> set fleet3. length (snd e) < 2) \<longrightarrow>
        check_all_paths_conflict_3d fleet3 sd ts = Some CLEAR"
    by (simp add: check_all_paths_conflict_3d_eq fleet_events_3d_degenerate)
  show ?thesis
    using from_loops_2d to_loops_2d small_2d degenerate_2d
      from_loops_3d to_loops_3d small_3d degenerate_3d
    by blast
qed

theorem report_status_iff_conflicts_witness:
  "outer_loop_2d 5 6 [(''A'', [(0, 0, 0), (0, 0, 10)]), (''B'', [(1, 0, 0), (1, 0, 10)])] []
     = Some [\<lparr>time = 6, location = (0, 0), distance = 1, between = (''A'', ''B'')\<rparr>]
   \<and> check_all_paths_conflict_2d
        [(''A'', [(0, 0, 0), (0, 0, 10)]), (''B'', [(1, 0, 0), (1, 0, 10)])] 5 6
      = Some (CONFLICT [\<lparr>time = 6, location = (0, 0), distance = 1, between = (''A'', ''B'')\<rparr>])
   \<and> status (CONFLICT [\<lparr>time = 6, location = (0 :: real, 0 :: real), distance = 1,
          between = (''A'', ''B'')\<rparr>]) = ''CONFLICT''
   \<and> length [(0 :: real, 0 :: real, 0 :: real)] < 2
   \<and> check_all_paths_conflict_2d [(''A'', [(0, 0, 0)]), (''B'', [])] 5 1 = Some CLEAR
   \<and> outer_loop_3d 5 6
        [(''A'', [(0, 0, 0, 0), (0, 0, 0, 10)]), (''B'', [(1, 0, 0, 0), (1, 0, 0, 10)])] []
     = Some [\<lparr>time = 6, location = (0, 0, 0), distance = 1, between = (''A'', ''B'')\<rparr>]
   \<and> check_all_paths_conflict_3d
        [(''A'', [(0, 0, 0, 0), (0, 0, 0, 10)]), (''B'', [(1, 0, 0, 0), (1, 0, 0, 10)])] 5 6
      = Some (CONFLICT [\<lparr>time = 6, location = (0, 0, 0), distance = 1, between = (''A'', ''B'')\<rparr>])
   \<and> check_all_paths_conflict_3d [(''A'', [(0, 0, 0, 0)]), (''B'', [])] 5 1 = Some CLEAR"
  using report_status_iff_conflicts
    [where ?fleet2.0 = "[(''A'', [(0, 0, 0), (0, 0, 10)]), (''B'', [(1, 0, 0), (1, 0, 10)])]"
       and ?fleet3.0 = "[(''A'', [(0, 0, 0, 0), (0, 0, 0, 10)]), (''B'', [(1, 0, 0, 0), (1, 0, 0, 10)])]"
       and sd = 5 and ts = 6]
    report_status_iff_conflicts
    [where ?fleet2.0 = "[(''A'', [(0, 0, 0)]), (''B'', [])]"
       and ?fleet3.0 = "[(''A'', [(0, 0, 0, 0)]), (''B'', [])]" and sd = 5 and ts = 1]
  by (simp add: eval_2d eval_3d)

text \<open>
  Claim C10. With a time step that is zero or negative the detector returns, and returns
  the CLEAR report, whatever the fleet and the safety distance (a positive one in
  particular): every pair leaves the conflict list as it was, because a positive overlap
  duration keeps the non-positive step as the effective step, which is then refused before
  the sampling loop. Both modules.
\<close>

theorem nonpositive_time_step_clear:
  assumes "time_step \<le> 0"
  shows "check_all_paths_conflict_2d fleet2 safety_distance time_step = Some CLEAR
       \<and> check_all_paths_conflict_3d fleet3 safety_distance time_step = Some CLEAR
       \<and> check_pair_2d safety_distance time_step a2 b2 conflicts2 = Some conflicts2
       \<and> check_pair_3d safety_distance time_step a3 b3 conflicts3 = Some conflicts3
       \<and> (0 < mission_duration \<longrightarrow> effective_step time_step mission_duration = time_step)"
  using assms
  by (simp add: check_all_paths_conflict_2d_eq check_all_paths_conflict_3d_eq
      check_pair_2d_eq check_pair_3d_eq pair_events_2d_nonpos_step pair_events_3d_nonpos_step
      fleet_events_2d_nonpos_step fleet_events_3d_nonpos_step effective_step_nonpos)

theorem nonpositive_time_step_clear_witness:
  "(- 1 :: real) \<le> 0 \<and> (0 :: real) < 10
   \<and> check_all_paths_conflict_2d
        [(''A'', [(0, 0, 0), (0, 0, 10)]), (''B'', [(1, 0, 0), (1, 0, 10)])] 5 (- 1) = Some CLEAR
   \<and> check_all_paths_conflict_3d
        [(''A'', [(0, 0, 0, 0), (0, 0, 0, 10)]), (''B'', [(1, 0, 0, 0), (1, 0, 0, 10)])] 5 (- 1)
      = Some CLEAR
   \<and> effective_step (- 1) 10 = - 1"
  using nonpositive_time_step_clear
    [where time_step = "- 1" and safety_distance = 5 and mission_duration = 10
       and ?fleet2.0 = "[(''A'', [(0, 0, 0), (0, 0, 10)]), (''B'', [(1, 0, 0), (1, 0, 10)])]"
       and ?fleet3.0 = "[(''A'', [(0, 0, 0, 0), (0, 0, 0, 10)]), (''B'', [(1, 0, 0, 0), (1, 0, 0, 10)])]"]
  by simp

section \<open>Position along a trajectory\<close>

lemma get_position_at_time_2d_short:
  "length path < 2 \<Longrightarrow> get_position_at_time_2d path t = None"
proof (cases path)
  case Nil
  then show ?thesis by simp
next
  case (Cons p rest)
  assume "length path < 2"
  with Cons have "rest = []" by simp
  with Cons show ?thesis by simp
qed

lemma get_position_at_time_2d_defined_iff:
  "sorted (map timestamp_2d path) \<Longrightarrow> 2 \<le> length path \<Longrightarrow>
   (get_position_at_time_2d path t \<noteq> None) =
     (timestamp_2d (hd path) \<le> t \<and> t \<le> timestamp_2d (last path))"
proof (induction path t rule: get_position_at_time_2d.induct)
  case (1 p q path t)
  show ?case
  proof (cases "timestamp_2d p \<le> t \<and> t \<le> timestamp_2d q")
    case True
    moreover have "timestamp_2d q \<le> timestamp_2d (last (q # path))"
      using "1.prems"(1) by (cases "path = []") auto
    ultimately show ?thesis by auto
  next
    case out: False
    show ?thesis
    proof (cases path)
      case Nil
      with out show ?thesis by auto
    next
      case (Cons r rest)
      have pq: "timestamp_2d p \<le> timestamp_2d q" using "1.prems"(1) by simp
      have "(get_position_at_time_2d (q # path) t \<noteq> None) =
            (timestamp_2d (hd (q # path)) \<le> t \<and> t \<le> timestamp_2d (last (q # path)))"
        using "1.IH" out "1.prems"(1) Cons by simp
      with out pq show ?thesis by auto
    qed
  qed
qed simp_all


lemma get_position_at_time_3d_short:
  "length path < 2 \<Longrightarrow> get_position_at_time_3d path t = None"
proof (cases path)
  case Nil
  then show ?thesis by simp
next
  case (Cons p rest)
  assume "length path < 2"
  with Cons have "rest = []" by simp
  with Cons show ?thesis by simp
qed

lemma get_position_at_time_3d_defined_iff:
  "sorted (map timestamp_3d path) \<Longrightarrow> 2 \<le> length path \<Longrightarrow>
   (get_position_at_time_3d path t \<noteq> None) =
     (timestamp_3d (hd path) \<le> t \<and> t \<le> timestamp_3d (last path))"
proof (induction path t rule: get_position_at_time_3d.induct)
  case (1 p q path t)
  show ?case
  proof (cases "timestamp_3d p \<le> t \<and> t \<le> timestamp_3d q")
    case True
    moreover have "timestamp_3d q \<le> timestamp_3d (last (q # path))"
      using "1.prems"(1) by (cases "path = []") auto
    ultimately show ?thesis by auto
  next
    case out: False
    show ?thesis
    proof (cases path)
      case Nil
      with out show ?thesis by auto
    next
      case (Cons r rest)
      have pq: "timestamp_3d p \<le> timestamp_3d q" using "1.prems"(1) by simp
      have "(get_position_at_time_3d (q # path) t \<noteq> None) =
            (timestamp_3d (hd (q # path)) \<le> t \<and> t \<le> timestamp_3d (last (q # path)))"
        using "1.IH" out "1.prems"(1) Cons by simp
      with out pq show ?thesis by auto
    qed
  qed
qed simp_all


text \<open>
  Claim C3. On a trajectory sorted ascending by timestamp with at least two waypoints,
  \<open>get_position_at_time\<close> returns a position exactly for the times \<open>t\<close> between the first
  and the last timestamp, both included; on a path with fewer than two waypoints it returns
  no position. Both modules.
\<close>

theorem position_defined_iff_in_range:
  "(sorted (map timestamp_2d path2) \<and> 2 \<le> length path2 \<longrightarrow>
      ((\<exists>pos. get_position_at_time_2d path2 t = Some pos) \<longleftrightarrow>
       (timestamp_2d (hd path2) \<le> t \<and> t \<le> timestamp_2d (last path2))))
   \<and> (length path2 < 2 \<longrightarrow> get_position_at_time_2d path2 t = None)
   \<and> (sorted (map timestamp_3d path3) \<and> 2 \<le> length path3 \<longrightarrow>
      ((\<exists>pos. get_position_at_time_3d path3 t = Some pos) \<longleftrightarrow>
       (timestamp_3d (hd path3) \<le> t \<and> t \<le> timestamp_3d (last path3))))
   \<and> (length path3 < 2 \<longrightarrow> get_position_at_time_3d path3 t = None)"
  using get_position_at_time_2d_defined_iff [of path2 t]
    get_position_at_time_3d_defined_iff [of path3 t]
  by (simp add: get_position_at_time_2d_short get_position_at_time_3d_short)

theorem position_defined_iff_in_range_witness:
  "sorted (map timestamp_2d [(0, 0, 0), (10, 0, 10)]) \<and> 2 \<le> length [(0, 0, 0), (10 :: real, 0 :: real, 10 :: real)]
   \<and> (\<exists>pos. get_position_at_time_2d [(0, 0, 0), (10, 0, 10)] 5 = Some pos)
   \<and> timestamp_2d (hd [(0, 0, 0), (10, 0, 10)]) \<le> 5 \<and> 5 \<le> timestamp_2d (last [(0, 0, 0), (10, 0, 10)])
   \<and> sorted (map timestamp_3d [(0, 0, 0, 0), (10, 0, 0, 10)])
   \<and> (\<exists>pos. get_position_at_time_3d [(0, 0, 0, 0), (10, 0, 0, 10)] 5 = Some pos)
   \<and> timestamp_3d (hd [(0, 0, 0, 0), (10, 0, 0, 10)]) \<le> 5 \<and> 5 \<le> timestamp_3d (last [(0, 0, 0, 0), (10, 0, 0, 10)])"
  using position_defined_iff_in_range
    [where ?path2.0 = "[(0, 0, 0), (10, 0, 10)]" and ?path3.0 = "[(0, 0, 0, 0), (10, 0, 0, 10)]" and t = 5]
  by (simp add: timestamp_2d_def timestamp_3d_def)




section \<open>Lists of events\<close>

lemma length_map_filter_mono:
  "\<forall>x \<in> set xs. f x \<noteq> None \<longrightarrow> g x \<noteq> None \<Longrightarrow>
   length (List.map_filter f xs) \<le> length (List.map_filter g xs)"
proof (induction xs)
  case Nil
  then show ?case by simp
next
  case (Cons x xs)
  then have "length (List.map_filter f xs) \<le> length (List.map_filter g xs)" by simp
  moreover have "f x \<noteq> None \<longrightarrow> g x \<noteq> None" using Cons.prems by simp
  ultimately show ?case by (auto split: option.splits)
qed

lemma in_set_map_filter:
  "e \<in> set (List.map_filter f xs) \<longleftrightarrow> (\<exists>x \<in> set xs. f x = Some e)"
  by (induction xs) (auto split: option.splits)

lemma round_half_even_cases:
  "round_half_even v = \<lfloor>v\<rfloor> \<or>
   (round_half_even v = \<lfloor>v\<rfloor> + 1 \<and> of_int \<lfloor>v\<rfloor> + 1 / 2 \<le> v)"
  unfolding round_half_even_def Let_def by (auto simp: not_less algebra_simps)

lemma round_half_even_upper: "of_int (round_half_even v) \<le> v + 1 / 2"
proof -
  have a: "of_int \<lfloor>v\<rfloor> \<le> v" by (rule of_int_floor_le)
  from round_half_even_cases [of v] show ?thesis
  proof (elim disjE conjE)
    assume "round_half_even v = \<lfloor>v\<rfloor>"
    then have "of_int (round_half_even v) = (of_int \<lfloor>v\<rfloor> :: real)" by simp
    with a show ?thesis by linarith
  next
    assume "round_half_even v = \<lfloor>v\<rfloor> + 1" and h: "of_int \<lfloor>v\<rfloor> + 1 / 2 \<le> v"
    then have "of_int (round_half_even v) = (of_int \<lfloor>v\<rfloor> :: real) + 1" by simp
    with h show ?thesis by linarith
  qed
qed

lemma round_half_even_le_int:
  assumes "v \<le> of_int n"
  shows "round_half_even v \<le> n"
proof -
  have fl: "\<lfloor>v\<rfloor> \<le> n" using assms by (simp add: floor_le_iff)
  show ?thesis
  proof (cases "\<lfloor>v\<rfloor> = n")
    case True
    have "of_int \<lfloor>v\<rfloor> \<le> v" by (rule of_int_floor_le)
    with True assms have "\<not> of_int \<lfloor>v\<rfloor> + 1 / 2 \<le> v" by simp
    with round_half_even_cases [of v] True show ?thesis by auto
  next
    case False
    with fl have "\<lfloor>v\<rfloor> + 1 \<le> n" by simp
    with round_half_even_cases [of v] show ?thesis by auto
  qed
qed

lemma round2_upper: "round2 v \<le> v + 1 / 200"
  using round_half_even_upper [of "v * 100"] by (simp add: round2_def field_simps)

lemma round2_le_hundredths:
  assumes "v \<le> sd" and "sd * 100 \<in> \<int>"
  shows "round2 v \<le> sd"
proof -
  from assms(2) obtain n :: int where n: "sd * 100 = of_int n" by (auto elim: Ints_cases)
  have "v * 100 \<le> of_int n" using assms(1) n by simp
  then have "round_half_even (v * 100) \<le> n" by (rule round_half_even_le_int)
  then have "(of_int (round_half_even (v * 100)) :: real) \<le> of_int n" by simp
  then show ?thesis using n by (simp add: round2_def field_simps)
qed

lemma list_all2_map_filter:
  "\<forall>x \<in> set xs. rel_option R (f x) (g x) \<Longrightarrow>
   list_all2 R (List.map_filter f xs) (List.map_filter g xs)"
proof (induction xs)
  case Nil
  then show ?case by simp
next
  case (Cons x xs)
  then have "list_all2 R (List.map_filter f xs) (List.map_filter g xs)" by simp
  moreover have "rel_option R (f x) (g x)" using Cons.prems by simp
  ultimately show ?case by (cases "f x"; cases "g x") simp_all
qed

lemma conflicts_of_report:
  "conflicts_of (if evs \<noteq> [] then CONFLICT evs else CLEAR) = evs"
  by simp

lemma status_report:
  "status (if evs \<noteq> [] then CONFLICT evs else CLEAR) = (if evs \<noteq> [] then ''CONFLICT'' else ''CLEAR'')"
  by simp

section \<open>Events of a pair and of a fleet\<close>

lemma sample_event_2d_mono:
  "sd' \<le> sd \<Longrightarrow> sample_event_2d p1 p2 sd' d1 d2 t \<noteq> None \<Longrightarrow>
   sample_event_2d p1 p2 sd d1 d2 t \<noteq> None"
  by (auto simp: sample_event_2d_def split: option.splits if_splits)

lemma pair_events_2d_length_mono:
  assumes "sd' \<le> sd"
  shows "length (pair_events_2d sd' ts e1 e2) \<le> length (pair_events_2d sd ts e1 e2)"
proof -
  have "length (List.map_filter (sample_event_2d p1 p2 sd' d1 d2) xs)
      \<le> length (List.map_filter (sample_event_2d p1 p2 sd d1 d2) xs)" for p1 p2 d1 d2 xs
    using sample_event_2d_mono [OF assms] by (intro length_map_filter_mono) blast
  then show ?thesis by (simp add: pair_events_2d_def Let_def)
qed

lemma length_fleet_events_2d:
  "length (fleet_events_2d fleet sd ts) =
     sum_list (map (\<lambda>(e1, e2). length (pair_events_2d sd ts e1 e2)) (entry_pairs fleet))"
  by (simp add: fleet_events_2d_def length_concat comp_def case_prod_unfold)

lemma fleet_events_2d_length_mono:
  "sd' \<le> sd \<Longrightarrow>
   length (fleet_events_2d fleet sd' ts) \<le> length (fleet_events_2d fleet sd ts)"
  unfolding length_fleet_events_2d
  by (rule sum_list_mono) (auto simp: pair_events_2d_length_mono)

lemma sample_event_2d_distance:
  "sample_event_2d p1 p2 sd d1 d2 t = Some e \<Longrightarrow> \<exists>d. d \<le> sd \<and> distance e = round2 d"
  by (auto simp: sample_event_2d_def split: option.splits if_splits)

lemma pair_events_2d_distance:
  "e \<in> set (pair_events_2d sd ts e1 e2) \<Longrightarrow> \<exists>d. d \<le> sd \<and> distance e = round2 d"
  unfolding pair_events_2d_def Let_def
  by (auto simp: in_set_map_filter dest: sample_event_2d_distance split: if_splits)

lemma fleet_events_2d_distance:
  "e \<in> set (fleet_events_2d fleet sd ts) \<Longrightarrow> \<exists>d. d \<le> sd \<and> distance e = round2 d"
  unfolding fleet_events_2d_def
  by (auto dest: pair_events_2d_distance)

lemma fleet_events_2d_distance_bound:
  assumes "e \<in> set (fleet_events_2d fleet sd ts)"
  shows "distance e \<le> sd + 1 / 200 \<and> (sd * 100 \<in> \<int> \<longrightarrow> distance e \<le> sd)"
proof -
  from fleet_events_2d_distance [OF assms]
  obtain d where d: "d \<le> sd" "distance e = round2 d" by blast
  have "round2 d \<le> d + 1 / 200" by (rule round2_upper)
  with d show ?thesis by (auto intro: round2_le_hundredths)
qed

lemma distance_2d_commute: "distance_2d p q = distance_2d q p"
  by (simp add: distance_2d_def power2_commute)

lemma sample_event_2d_mirrored:
  "rel_option (mirrored_2d p1 p2 d1 d2)
     (sample_event_2d p1 p2 sd d1 d2 t) (sample_event_2d p2 p1 sd d2 d1 t)"
proof (cases "get_position_at_time_2d p1 t")
  case None
  then show ?thesis by (simp add: sample_event_2d_def split: option.splits)
next
  case pos1: (Some pos1)
  show ?thesis
  proof (cases "get_position_at_time_2d p2 t")
    case None
    then show ?thesis by (simp add: sample_event_2d_def split: option.splits)
  next
    case pos2: (Some pos2)
    show ?thesis
    proof (cases "distance_2d pos1 pos2 \<le> sd")
      case True
      have "mirrored_2d p1 p2 d1 d2
        \<lparr>time = round2 t, location = (round2 (fst pos1), round2 (snd pos1)),
             distance = round2 (distance_2d pos1 pos2), between = (d1, d2)\<rparr>
        \<lparr>time = round2 t, location = (round2 (fst pos2), round2 (snd pos2)),
              distance = round2 (distance_2d pos1 pos2), between = (d2, d1)\<rparr>"
        unfolding mirrored_2d_def using pos1 pos2 by blast
      then show ?thesis
        using True pos1 pos2 by (simp add: sample_event_2d_def distance_2d_commute [of pos2 pos1])
    next
      case False
      then show ?thesis
        using pos1 pos2 by (simp add: sample_event_2d_def distance_2d_commute [of pos2 pos1])
    qed
  qed
qed

lemma pair_events_2d_mirrored:
  "list_all2 (mirrored_2d (sort_path_by_time_2d (snd e1)) (sort_path_by_time_2d (snd e2)) (fst e1) (fst e2))
     (pair_events_2d sd ts e1 e2) (pair_events_2d sd ts e2 e1)"
proof -
  have s: "start_time_2d p q = start_time_2d q p" and e: "end_time_2d p q = end_time_2d q p" for p q
    by (simp_all add: start_time_2d_def end_time_2d_def max.commute min.commute)
  show ?thesis
    unfolding pair_events_2d_def Let_def
    using s [of "sort_path_by_time_2d (snd e2)"] e [of "sort_path_by_time_2d (snd e2)"]
    by (auto intro!: list_all2_map_filter sample_event_2d_mirrored)
qed

lemma fleet_events_2d_two: "fleet_events_2d [e1, e2] sd ts = pair_events_2d sd ts e1 e2"
  by (simp add: fleet_events_2d_def)

lemma mirrored_2d_fields:
  "list_all2 (mirrored_2d p1 p2 d1 d2) xs ys \<Longrightarrow>
   map time xs = map time ys \<and> map distance xs = map distance ys \<and>
   map between xs = map (\<lambda>e. prod.swap (between e)) ys"
  by (induction xs ys rule: list_all2_induct) (auto simp: mirrored_2d_def)

lemma sample_event_3d_mono:
  "sd' \<le> sd \<Longrightarrow> sample_event_3d p1 p2 sd' d1 d2 t \<noteq> None \<Longrightarrow>
   sample_event_3d p1 p2 sd d1 d2 t \<noteq> None"
  by (auto simp: sample_event_3d_def split: option.splits if_splits)

lemma pair_events_3d_length_mono:
  assumes "sd' \<le> sd"
  shows "length (pair_events_3d sd' ts e1 e2) \<le> length (pair_events_3d sd ts e1 e2)"
proof -
  have "length (List.map_filter (sample_event_3d p1 p2 sd' d1 d2) xs)
      \<le> length (List.map_filter (sample_event_3d p1 p2 sd d1 d2) xs)" for p1 p2 d1 d2 xs
    using sample_event_3d_mono [OF assms] by (intro length_map_filter_mono) blast
  then show ?thesis by (simp add: pair_events_3d_def Let_def)
qed

lemma length_fleet_events_3d:
  "length (fleet_events_3d fleet sd ts) =
     sum_list (map (\<lambda>(e1, e2). length (pair_events_3d sd ts e1 e2)) (entry_pairs fleet))"
  by (simp add: fleet_events_3d_def length_concat comp_def case_prod_unfold)

lemma fleet_events_3d_length_mono:
  "sd' \<le> sd \<Longrightarrow>
   length (fleet_events_3d fleet sd' ts) \<le> length (fleet_events_3d fleet sd ts)"
  unfolding length_fleet_events_3d
  by (rule sum_list_mono) (auto simp: pair_events_3d_length_mono)

lemma sample_event_3d_distance:
  "sample_event_3d p1 p2 sd d1 d2 t = Some e \<Longrightarrow> \<exists>d. d \<le> sd \<and> distance e = round2 d"
  by (auto simp: sample_event_3d_def split: option.splits if_splits)

lemma pair_events_3d_distance:
  "e \<in> set (pair_events_3d sd ts e1 e2) \<Longrightarrow> \<exists>d. d \<le> sd \<and> distance e = round2 d"
  unfolding pair_events_3d_def Let_def
  by (auto simp: in_set_map_filter dest: sample_event_3d_distance split: if_splits)

lemma fleet_events_3d_distance:
  "e \<in> set (fleet_events_3d fleet sd ts) \<Longrightarrow> \<exists>d. d \<le> sd \<and> distance e = round2 d"
  unfolding fleet_events_3d_def
  by (auto dest: pair_events_3d_distance)

lemma fleet_events_3d_distance_bound:
  assumes "e \<in> set (fleet_events_3d fleet sd ts)"
  shows "distance e \<le> sd + 1 / 200 \<and> (sd * 100 \<in> \<int> \<longrightarrow> distance e \<le> sd)"
proof -
  from fleet_events_3d_distance [OF assms]
  obtain d where d: "d \<le> sd" "distance e = round2 d" by blast
  have "round2 d \<le> d + 1 / 200" by (rule round2_upper)
  with d show ?thesis by (auto intro: round2_le_hundredths)
qed

lemma distance_3d_commute: "distance_3d p q = distance_3d q p"
  by (simp add: distance_3d_def power2_commute)

lemma sample_event_3d_mirrored:
  "rel_option (mirrored_3d p1 p2 d1 d2)
     (sample_event_3d p1 p2 sd d1 d2 t) (sample_event_3d p2 p1 sd d2 d1 t)"
proof (cases "get_position_at_time_3d p1 t")
  case None
  then show ?thesis by (simp add: sample_event_3d_def split: option.splits)
next
  case pos1: (Some pos1)
  show ?thesis
  proof (cases "get_position_at_time_3d p2 t")
    case None
    then show ?thesis by (simp add: sample_event_3d_def split: option.splits)
  next
    case pos2: (Some pos2)
    show ?thesis
    proof (cases "distance_3d pos1 pos2 \<le> sd")
      case True
      have "mirrored_3d p1 p2 d1 d2
        \<lparr>time = round2 t, location = (round2 (fst pos1), round2 (fst (snd pos1)), round2 (snd (snd pos1))),
             distance = round2 (distance_3d pos1 pos2), between = (d1, d2)\<rparr>
        \<lparr>time = round2 t, location = (round2 (fst pos2), round2 (fst (snd pos2)), round2 (snd (snd pos2))),
              distance = round2 (distance_3d pos1 pos2), between = (d2, d1)\<rparr>"
        unfolding mirrored_3d_def using pos1 pos2 by blast
      then show ?thesis
        using True pos1 pos2 by (simp add: sample_event_3d_def distance_3d_commute [of pos2 pos1])
    next
      case False
      then show ?thesis
        using pos1 pos2 by (simp add: sample_event_3d_def distance_3d_commute [of pos2 pos1])
    qed
  qed
qed

lemma pair_events_3d_mirrored:
  "list_all2 (mirrored_3d (sort_path_by_time_3d (snd e1)) (sort_path_by_time_3d (snd e2)) (fst e1) (fst e2))
     (pair_events_3d sd ts e1 e2) (pair_events_3d sd ts e2 e1)"
proof -
  have s: "start_time_3d p q = start_time_3d q p" and e: "end_time_3d p q = end_time_3d q p" for p q
    by (simp_all add: start_time_3d_def end_time_3d_def max.commute min.commute)
  show ?thesis
    unfolding pair_events_3d_def Let_def
    using s [of "sort_path_by_time_3d (snd e2)"] e [of "sort_path_by_time_3d (snd e2)"]
    by (auto intro!: list_all2_map_filter sample_event_3d_mirrored)
qed

lemma fleet_events_3d_two: "fleet_events_3d [e1, e2] sd ts = pair_events_3d sd ts e1 e2"
  by (simp add: fleet_events_3d_def)

lemma mirrored_3d_fields:
  "list_all2 (mirrored_3d p1 p2 d1 d2) xs ys \<Longrightarrow>
   map time xs = map time ys \<and> map distance xs = map distance ys \<and>
   map between xs = map (\<lambda>e. prod.swap (between e)) ys"
  by (induction xs ys rule: list_all2_induct) (auto simp: mirrored_3d_def)

lemma sample_event_2d_separation:
  "sample_event_2d p1 p2 sd d1 d2 t = Some e \<Longrightarrow>
   \<exists>pos1 pos2. get_position_at_time_2d p1 t = Some pos1
      \<and> get_position_at_time_2d p2 t = Some pos2
      \<and> distance_2d pos1 pos2 \<le> sd
      \<and> e = \<lparr>time = round2 t, location = (round2 (fst pos1), round2 (snd pos1)),
             distance = round2 (distance_2d pos1 pos2), between = (d1, d2)\<rparr>"
  by (auto simp: sample_event_2d_def split: option.splits if_splits)

lemma pair_events_2d_separation:
  "e \<in> set (pair_events_2d sd ts e1 e2) \<Longrightarrow>
   \<exists>t pos1 pos2.
      get_position_at_time_2d (sort_path_by_time_2d (snd e1)) t = Some pos1
      \<and> get_position_at_time_2d (sort_path_by_time_2d (snd e2)) t = Some pos2
      \<and> distance_2d pos1 pos2 \<le> sd
      \<and> e = \<lparr>time = round2 t, location = (round2 (fst pos1), round2 (snd pos1)),
             distance = round2 (distance_2d pos1 pos2), between = (fst e1, fst e2)\<rparr>"
proof -
  assume "e \<in> set (pair_events_2d sd ts e1 e2)"
  then obtain t where "sample_event_2d (sort_path_by_time_2d (snd e1))
      (sort_path_by_time_2d (snd e2)) sd (fst e1) (fst e2) t = Some e"
    unfolding pair_events_2d_def Let_def
    by (auto simp: in_set_map_filter split: if_splits)
  from sample_event_2d_separation [OF this] show ?thesis by blast
qed

lemma fleet_events_2d_separation:
  assumes "e \<in> set (fleet_events_2d fleet sd ts)"
  shows "\<exists>e1 \<in> set fleet. \<exists>e2 \<in> set fleet. \<exists>t pos1 pos2.
      get_position_at_time_2d (sort_path_by_time_2d (snd e1)) t = Some pos1
      \<and> get_position_at_time_2d (sort_path_by_time_2d (snd e2)) t = Some pos2
      \<and> distance_2d pos1 pos2 \<le> sd
      \<and> e = \<lparr>time = round2 t, location = (round2 (fst pos1), round2 (snd pos1)),
             distance = round2 (distance_2d pos1 pos2), between = (fst e1, fst e2)\<rparr>"
proof -
  from assms obtain e1 e2 where p: "(e1, e2) \<in> set (entry_pairs fleet)"
      and e: "e \<in> set (pair_events_2d sd ts e1 e2)"
    unfolding fleet_events_2d_def by auto
  from set_entry_pairs [OF p] have "e1 \<in> set fleet" "e2 \<in> set fleet" by simp_all
  with pair_events_2d_separation [OF e] show ?thesis by blast
qed

lemma sample_event_3d_separation:
  "sample_event_3d p1 p2 sd d1 d2 t = Some e \<Longrightarrow>
   \<exists>pos1 pos2. get_position_at_time_3d p1 t = Some pos1
      \<and> get_position_at_time_3d p2 t = Some pos2
      \<and> distance_3d pos1 pos2 \<le> sd
      \<and> e = \<lparr>time = round2 t, location = (round2 (fst pos1), round2 (fst (snd pos1)), round2 (snd (snd pos1))),
             distance = round2 (distance_3d pos1 pos2), between = (d1, d2)\<rparr>"
  by (auto simp: sample_event_3d_def split: option.splits if_splits)

lemma pair_events_3d_separation:
  "e \<in> set (pair_events_3d sd ts e1 e2) \<Longrightarrow>
   \<exists>t pos1 pos2.
      get_position_at_time_3d (sort_path_by_time_3d (snd e1)) t = Some pos1
      \<and> get_position_at_time_3d (sort_path_by_time_3d (snd e2)) t = Some pos2
      \<and> distance_3d pos1 pos2 \<le> sd
      \<and> e = \<lparr>time = round2 t, location = (round2 (fst pos1), round2 (fst (snd pos1)), round2 (snd (snd pos1))),
             distance = round2 (distance_3d pos1 pos2), between = (fst e1, fst e2)\<rparr>"
proof -
  assume "e \<in> set (pair_events_3d sd ts e1 e2)"
  then obtain t where "sample_event_3d (sort_path_by_time_3d (snd e1))
      (sort_path_by_time_3d (snd e2)) sd (fst e1) (fst e2) t = Some e"
    unfolding pair_events_3d_def Let_def
    by (auto simp: in_set_map_filter split: if_splits)
  from sample_event_3d_separation [OF this] show ?thesis by blast
qed

lemma fleet_events_3d_separation:
  assumes "e \<in> set (fleet_events_3d fleet sd ts)"
  shows "\<exists>e1 \<in> set fleet. \<exists>e2 \<in> set fleet. \<exists>t pos1 pos2.
      get_position_at_time_3d (sort_path_by_time_3d (snd e1)) t = Some pos1
      \<and> get_position_at_time_3d (sort_path_by_time_3d (snd e2)) t = Some pos2
      \<and> distance_3d pos1 pos2 \<le> sd
      \<and> e = \<lparr>time = round2 t, location = (round2 (fst pos1), round2 (fst (snd pos1)), round2 (snd (snd pos1))),
             distance = round2 (distance_3d pos1 pos2), between = (fst e1, fst e2)\<rparr>"
proof -
  from assms obtain e1 e2 where p: "(e1, e2) \<in> set (entry_pairs fleet)"
      and e: "e \<in> set (pair_events_3d sd ts e1 e2)"
    unfolding fleet_events_3d_def by auto
  from set_entry_pairs [OF p] have "e1 \<in> set fleet" "e2 \<in> set fleet" by simp_all
  with pair_events_3d_separation [OF e] show ?thesis by blast
qed

section \<open>Safety distance, reported distance, pair order\<close>

lemma check_all_paths_conflict_2d_returns:
  obtains r where "check_all_paths_conflict_2d fleet sd ts = Some r"
    and "conflicts_of r = fleet_events_2d fleet sd ts"
    and "status r = (if fleet_events_2d fleet sd ts \<noteq> [] then ''CONFLICT'' else ''CLEAR'')"
  by (simp add: check_all_paths_conflict_2d_eq)

lemma check_all_paths_conflict_3d_returns:
  obtains r where "check_all_paths_conflict_3d fleet sd ts = Some r"
    and "conflicts_of r = fleet_events_3d fleet sd ts"
    and "status r = (if fleet_events_3d fleet sd ts \<noteq> [] then ''CONFLICT'' else ''CLEAR'')"
  by (simp add: check_all_paths_conflict_3d_eq)

text \<open>
  Claim C8. For a fixed fleet and time step, a smaller safety distance never gives more
  conflict events: both runs return, and the run with the smaller distance reports at most
  as many events. Both modules.
\<close>

theorem smaller_distance_fewer_conflicts:
  assumes "sd' < sd"
  shows "(\<exists>r' r. check_all_paths_conflict_2d fleet2 sd' ts = Some r'
            \<and> check_all_paths_conflict_2d fleet2 sd ts = Some r
            \<and> length (conflicts_of r') \<le> length (conflicts_of r))
       \<and> (\<exists>r' r. check_all_paths_conflict_3d fleet3 sd' ts = Some r'
            \<and> check_all_paths_conflict_3d fleet3 sd ts = Some r
            \<and> length (conflicts_of r') \<le> length (conflicts_of r))"
proof -
  obtain r2' where r2': "check_all_paths_conflict_2d fleet2 sd' ts = Some r2'"
      "conflicts_of r2' = fleet_events_2d fleet2 sd' ts"
    by (rule check_all_paths_conflict_2d_returns)
  obtain r2 where r2: "check_all_paths_conflict_2d fleet2 sd ts = Some r2"
      "conflicts_of r2 = fleet_events_2d fleet2 sd ts"
    by (rule check_all_paths_conflict_2d_returns)
  obtain r3' where r3': "check_all_paths_conflict_3d fleet3 sd' ts = Some r3'"
      "conflicts_of r3' = fleet_events_3d fleet3 sd' ts"
    by (rule check_all_paths_conflict_3d_returns)
  obtain r3 where r3: "check_all_paths_conflict_3d fleet3 sd ts = Some r3"
      "conflicts_of r3 = fleet_events_3d fleet3 sd ts"
    by (rule check_all_paths_conflict_3d_returns)
  have "length (conflicts_of r2') \<le> length (conflicts_of r2)"
    using assms r2' r2 by (simp add: fleet_events_2d_length_mono)
  moreover have "length (conflicts_of r3') \<le> length (conflicts_of r3)"
    using assms r3' r3 by (simp add: fleet_events_3d_length_mono)
  ultimately show ?thesis using r2' r2 r3' r3 by simp
qed

theorem smaller_distance_fewer_conflicts_witness:
  "(1 / 2 :: real) < 5
   \<and> check_all_paths_conflict_2d
        [(''A'', [(0, 0, 0), (0, 0, 10)]), (''B'', [(1, 0, 0), (1, 0, 10)])] (1 / 2) 6 = Some CLEAR
   \<and> check_all_paths_conflict_2d
        [(''A'', [(0, 0, 0), (0, 0, 10)]), (''B'', [(1, 0, 0), (1, 0, 10)])] 5 6
      = Some (CONFLICT [\<lparr>time = 6, location = (0, 0), distance = 1, between = (''A'', ''B'')\<rparr>])
   \<and> (\<exists>r' r. check_all_paths_conflict_3d
          [(''A'', [(0, 0, 0, 0), (0, 0, 0, 10)]), (''B'', [(1, 0, 0, 0), (1, 0, 0, 10)])] (1 / 2) 6
          = Some r'
        \<and> check_all_paths_conflict_3d
          [(''A'', [(0, 0, 0, 0), (0, 0, 0, 10)]), (''B'', [(1, 0, 0, 0), (1, 0, 0, 10)])] 5 6
          = Some r
        \<and> length (conflicts_of r') \<le> length (conflicts_of r))"
  using smaller_distance_fewer_conflicts
    [where sd' = "1 / 2" and sd = 5 and ts = 6
       and ?fleet2.0 = "[(''A'', [(0, 0, 0), (0, 0, 10)]), (''B'', [(1, 0, 0), (1, 0, 10)])]"
       and ?fleet3.0 = "[(''A'', [(0, 0, 0, 0), (0, 0, 0, 10)]), (''B'', [(1, 0, 0, 0), (1, 0, 0, 10)])]"]
  by (simp add: eval_2d)

text \<open>
  Claim C2, as stated, fails: the distance field is rounded after the comparison. Two
  drones holding position \<open>0.996\<close> apart under a safety distance of \<open>0.996\<close> are
  reported with distance \<open>1.0\<close>, which exceeds the safety distance.
\<close>

theorem reported_distance_counterexample:
  "check_all_paths_conflict_2d
     [(''A'', [(0, 0, 0), (0, 0, 10)]), (''B'', [(996 / 1000, 0, 0), (996 / 1000, 0, 10)])]
     (996 / 1000) 6
   = Some (CONFLICT [\<lparr>time = 6, location = (0, 0), distance = 1, between = (''A'', ''B'')\<rparr>])
   \<and> \<not> (1 :: real) \<le> 996 / 1000"
  by (simp add: eval_2d)

text \<open>
  Claim C2, amended. Every event of the report belongs to two drones of the fleet and a
  sample time at which both have a position: the separation of the two positions is at
  most the safety distance, and the event carries its two-decimal rounding as distance
  (with the rounded time, the first drone's rounded position and the two names). The
  reported distance is therefore at most the safety distance plus \<open>0.005\<close>, and at most
  the safety distance itself when the safety distance is a whole number of hundredths.
  Both modules.
\<close>

theorem reported_distance_bound:
  "(\<exists>r. check_all_paths_conflict_2d fleet2 sd ts = Some r
       \<and> (\<forall>e \<in> set (conflicts_of r).
             (\<exists>e1 \<in> set fleet2. \<exists>e2 \<in> set fleet2. \<exists>t pos1 pos2.
                 get_position_at_time_2d (sort_path_by_time_2d (snd e1)) t = Some pos1
                 \<and> get_position_at_time_2d (sort_path_by_time_2d (snd e2)) t = Some pos2
                 \<and> distance_2d pos1 pos2 \<le> sd
                 \<and> e = \<lparr>time = round2 t,
                        location = (round2 (fst pos1), round2 (snd pos1)),
                        distance = round2 (distance_2d pos1 pos2),
                        between = (fst e1, fst e2)\<rparr>)
             \<and> distance e \<le> sd + 1 / 200
             \<and> (sd * 100 \<in> \<int> \<longrightarrow> distance e \<le> sd)))
   \<and> (\<exists>r. check_all_paths_conflict_3d fleet3 sd ts = Some r
       \<and> (\<forall>e \<in> set (conflicts_of r).
             (\<exists>e1 \<in> set fleet3. \<exists>e2 \<in> set fleet3. \<exists>t pos1 pos2.
                 get_position_at_time_3d (sort_path_by_time_3d (snd e1)) t = Some pos1
                 \<and> get_position_at_time_3d (sort_path_by_time_3d (snd e2)) t = Some pos2
                 \<and> distance_3d pos1 pos2 \<le> sd
                 \<and> e = \<lparr>time = round2 t,
                        location = (round2 (fst pos1), round2 (fst (snd pos1)),
                                    round2 (snd (snd pos1))),
                        distance = round2 (distance_3d pos1 pos2),
                        between = (fst e1, fst e2)\<rparr>)
             \<and> distance e \<le> sd + 1 / 200
             \<and> (sd * 100 \<in> \<int> \<longrightarrow> distance e \<le> sd)))"
proof -
  obtain r2 where r2: "check_all_paths_conflict_2d fleet2 sd ts = Some r2"
      "conflicts_of r2 = fleet_events_2d fleet2 sd ts"
    by (rule check_all_paths_conflict_2d_returns)
  obtain r3 where r3: "check_all_paths_conflict_3d fleet3 sd ts = Some r3"
      "conflicts_of r3 = fleet_events_3d fleet3 sd ts"
    by (rule check_all_paths_conflict_3d_returns)
  have "\<forall>e \<in> set (conflicts_of r2).
          (\<exists>e1 \<in> set fleet2. \<exists>e2 \<in> set fleet2. \<exists>t pos1 pos2.
              get_position_at_time_2d (sort_path_by_time_2d (snd e1)) t = Some pos1
              \<and> get_position_at_time_2d (sort_path_by_time_2d (snd e2)) t = Some pos2
              \<and> distance_2d pos1 pos2 \<le> sd
              \<and> e = \<lparr>time = round2 t,
                     location = (round2 (fst pos1), round2 (snd pos1)),
                     distance = round2 (distance_2d pos1 pos2),
                     between = (fst e1, fst e2)\<rparr>)
          \<and> distance e \<le> sd + 1 / 200
          \<and> (sd * 100 \<in> \<int> \<longrightarrow> distance e \<le> sd)"
    unfolding r2(2)
    using fleet_events_2d_separation [of _ fleet2 sd ts]
      fleet_events_2d_distance_bound [of _ fleet2 sd ts] by blast
  moreover have "\<forall>e \<in> set (conflicts_of r3).
          (\<exists>e1 \<in> set fleet3. \<exists>e2 \<in> set fleet3. \<exists>t pos1 pos2.
              get_position_at_time_3d (sort_path_by_time_3d (snd e1)) t = Some pos1
              \<and> get_position_at_time_3d (sort_path_by_time_3d (snd e2)) t = Some pos2
              \<and> distance_3d pos1 pos2 \<le> sd
              \<and> e = \<lparr>time = round2 t,
                     location = (round2 (fst pos1), round2 (fst (snd pos1)),
                                 round2 (snd (snd pos1))),
                     distance = round2 (distance_3d pos1 pos2),
                     between = (fst e1, fst e2)\<rparr>)
          \<and> distance e \<le> sd + 1 / 200
          \<and> (sd * 100 \<in> \<int> \<longrightarrow> distance e \<le> sd)"
    unfolding r3(2)
    using fleet_events_3d_separation [of _ fleet3 sd ts]
      fleet_events_3d_distance_bound [of _ fleet3 sd ts] by blast
  ultimately show ?thesis using r2(1) r3(1) by blast
qed

theorem reported_distance_bound_witness:
  "check_all_paths_conflict_2d
     [(''A'', [(0, 0, 0), (0, 0, 10)]), (''B'', [(1, 0, 0), (1, 0, 10)])] 5 6
   = Some (CONFLICT [\<lparr>time = 6, location = (0, 0), distance = 1, between = (''A'', ''B'')\<rparr>])
   \<and> get_position_at_time_2d (sort_path_by_time_2d [(0, 0, 0), (0, 0, 10)]) 6 = Some (0, 0)
   \<and> get_position_at_time_2d (sort_path_by_time_2d [(1, 0, 0), (1, 0, 10)]) 6 = Some (1, 0)
   \<and> distance_2d (0, 0) (1, 0) \<le> 5 \<and> round2 (distance_2d (0, 0) (1, 0)) = 1
   \<and> (1 :: real) \<le> 5 + 1 / 200 \<and> (5 :: real) * 100 \<in> \<int> \<and> (1 :: real) \<le> 5
   \<and> check_all_paths_conflict_3d
     [(''A'', [(0, 0, 0, 0), (0, 0, 0, 10)]), (''B'', [(1, 0, 0, 0), (1, 0, 0, 10)])] 5 6
   = Some (CONFLICT [\<lparr>time = 6, location = (0, 0, 0), distance = 1, between = (''A'', ''B'')\<rparr>])"
  using reported_distance_bound
    [where sd = 5 and ts = 6
       and ?fleet2.0 = "[(''A'', [(0, 0, 0), (0, 0, 10)]), (''B'', [(1, 0, 0), (1, 0, 10)])]"
       and ?fleet3.0 = "[(''A'', [(0, 0, 0, 0), (0, 0, 0, 10)]), (''B'', [(1, 0, 0, 0), (1, 0, 0, 10)])]"]
  by (simp add: eval_2d eval_3d)

text \<open>
  Claim C5, as stated, fails on the location: an event is located at the position of the
  drone enumerated first. With one drone holding \<open>(0, 0)\<close> and the other \<open>(1, 0)\<close>, the
  two orders report the same time and distance but different locations.
\<close>

theorem pair_order_counterexample:
  "check_all_paths_conflict_2d
     [(''A'', [(0, 0, 0), (0, 0, 10)]), (''B'', [(1, 0, 0), (1, 0, 10)])] 5 6
   = Some (CONFLICT [\<lparr>time = 6, location = (0, 0), distance = 1, between = (''A'', ''B'')\<rparr>])
   \<and> check_all_paths_conflict_2d
     [(''B'', [(1, 0, 0), (1, 0, 10)]), (''A'', [(0, 0, 0), (0, 0, 10)])] 5 6
   = Some (CONFLICT [\<lparr>time = 6, location = (1, 0), distance = 1, between = (''B'', ''A'')\<rparr>])
   \<and> (0 :: real, 0 :: real) \<noteq> (1, 0)"
  by (simp add: eval_2d)

text \<open>
  Claim C5, amended. For a fleet of two drones, the two enumeration orders give reports of
  the same status and the same number of events, and the events correspond one to one:
  same time, same distance, the pair label swapped, and each located at the rounded
  position, at the common sample time, of the drone its own order enumerates first.
  Both modules.
\<close>

theorem pair_order_symmetry:
  "(\<exists>r r'. check_all_paths_conflict_2d [(a, pathA2), (b, pathB2)] sd ts = Some r
      \<and> check_all_paths_conflict_2d [(b, pathB2), (a, pathA2)] sd ts = Some r'
      \<and> status r = status r'
      \<and> list_all2
           (mirrored_2d (sort_path_by_time_2d pathA2) (sort_path_by_time_2d pathB2) a b)
           (conflicts_of r) (conflicts_of r')
      \<and> map time (conflicts_of r) = map time (conflicts_of r')
      \<and> map distance (conflicts_of r) = map distance (conflicts_of r')
      \<and> map between (conflicts_of r) = map (\<lambda>e. prod.swap (between e)) (conflicts_of r'))
   \<and> (\<exists>r r'. check_all_paths_conflict_3d [(a, pathA3), (b, pathB3)] sd ts = Some r
      \<and> check_all_paths_conflict_3d [(b, pathB3), (a, pathA3)] sd ts = Some r'
      \<and> status r = status r'
      \<and> list_all2
           (mirrored_3d (sort_path_by_time_3d pathA3) (sort_path_by_time_3d pathB3) a b)
           (conflicts_of r) (conflicts_of r')
      \<and> map time (conflicts_of r) = map time (conflicts_of r')
      \<and> map distance (conflicts_of r) = map distance (conflicts_of r')
      \<and> map between (conflicts_of r) = map (\<lambda>e. prod.swap (between e)) (conflicts_of r'))"
proof -
  let ?x2 = "pair_events_2d sd ts (a, pathA2) (b, pathB2)"
  let ?y2 = "pair_events_2d sd ts (b, pathB2) (a, pathA2)"
  let ?x3 = "pair_events_3d sd ts (a, pathA3) (b, pathB3)"
  let ?y3 = "pair_events_3d sd ts (b, pathB3) (a, pathA3)"
  have m2: "list_all2
      (mirrored_2d (sort_path_by_time_2d pathA2) (sort_path_by_time_2d pathB2) a b) ?x2 ?y2"
    using pair_events_2d_mirrored [of "(a, pathA2)" "(b, pathB2)" sd ts] by simp
  have m3: "list_all2
      (mirrored_3d (sort_path_by_time_3d pathA3) (sort_path_by_time_3d pathB3) a b) ?x3 ?y3"
    using pair_events_3d_mirrored [of "(a, pathA3)" "(b, pathB3)" sd ts] by simp
  have "length ?x2 = length ?y2" using m2 by (rule list_all2_lengthD)
  then have e2: "(?x2 = []) = (?y2 = [])" by auto
  have "length ?x3 = length ?y3" using m3 by (rule list_all2_lengthD)
  then have e3: "(?x3 = []) = (?y3 = [])" by auto
  show ?thesis
    using m2 m3 e2 e3 mirrored_2d_fields [OF m2] mirrored_3d_fields [OF m3]
    by (simp only: check_all_paths_conflict_2d_eq check_all_paths_conflict_3d_eq
        fleet_events_2d_two fleet_events_3d_two conflicts_of_report status_report) simp
qed

section \<open>The 3D detector on a 2D fleet at altitude 0\<close>

lemma timestamp_3d_lift [simp]: "timestamp_3d (lift_waypoint p) = timestamp_2d p"
  by (cases p) (simp add: timestamp_3d_def timestamp_2d_def)

lemma insort_key_lift:
  "insort_key timestamp_3d (lift_waypoint p) (map lift_waypoint path) =
     map lift_waypoint (insort_key timestamp_2d p path)"
  by (induction path) simp_all

lemma sort_path_by_time_lift:
  "sort_path_by_time_3d (map lift_waypoint path) = map lift_waypoint (sort_path_by_time_2d path)"
  unfolding sort_path_by_time_3d_def sort_path_by_time_2d_def
  by (induction path) (simp_all add: insort_key_lift)

lemma interpolate_lift:
  "interpolate_3d (lift_waypoint p) (lift_waypoint q) t = lift_point (interpolate_2d p q t)"
  by (cases p; cases q) (simp add: lift_point_def Let_def)

lemma get_position_at_time_lift:
  "get_position_at_time_3d (map lift_waypoint path) t =
     map_option lift_point (get_position_at_time_2d path t)"
  by (induction path t rule: get_position_at_time_2d.induct) (simp_all add: interpolate_lift)

lemma distance_lift: "distance_3d (lift_point a) (lift_point b) = distance_2d a b"
  by (simp add: distance_3d_def distance_2d_def lift_point_def)

lemma round2_zero: "round2 0 = 0"
  by (simp add: round2_def round_half_even_def)

lemma sample_event_lift:
  "sample_event_3d (map lift_waypoint p1) (map lift_waypoint p2) sd d1 d2 t =
     map_option lift_event (sample_event_2d p1 p2 sd d1 d2 t)"
  by (simp add: sample_event_3d_def sample_event_2d_def get_position_at_time_lift
      distance_lift lift_event_def round2_zero split: option.splits)
     (simp add: lift_point_def round2_zero)

lemma sample_event_lift_fun:
  "sample_event_3d (map lift_waypoint p1) (map lift_waypoint p2) sd d1 d2 =
     (\<lambda>t. map_option lift_event (sample_event_2d p1 p2 sd d1 d2 t))"
  by (rule ext) (rule sample_event_lift)

lemma map_map_filter:
  "map h (List.map_filter f xs) = List.map_filter (\<lambda>x. map_option h (f x)) xs"
  by (induction xs) (simp_all split: option.splits)

lemma start_time_lift:
  "p1 \<noteq> [] \<Longrightarrow> p2 \<noteq> [] \<Longrightarrow>
   start_time_3d (map lift_waypoint p1) (map lift_waypoint p2) = start_time_2d p1 p2"
  by (simp add: start_time_3d_def start_time_2d_def hd_map)

lemma end_time_lift:
  "p1 \<noteq> [] \<Longrightarrow> p2 \<noteq> [] \<Longrightarrow>
   end_time_3d (map lift_waypoint p1) (map lift_waypoint p2) = end_time_2d p1 p2"
  by (simp add: end_time_3d_def end_time_2d_def last_map)

lemma pair_events_lift:
  "pair_events_3d sd ts (d1, map lift_waypoint path1) (d2, map lift_waypoint path2) =
     map lift_event (pair_events_2d sd ts (d1, path1) (d2, path2))"
proof (cases "length path1 < 2 \<or> length path2 < 2")
  case True
  then show ?thesis
    by (simp add: pair_events_3d_degenerate pair_events_2d_degenerate)
next
  case False
  then have "length (sort_path_by_time_2d path1) \<noteq> 0"
      "length (sort_path_by_time_2d path2) \<noteq> 0"
    by (auto simp: sort_path_by_time_2d_def)
  then have "sort_path_by_time_2d path1 \<noteq> []" "sort_path_by_time_2d path2 \<noteq> []"
    by simp_all
  then show ?thesis
    by (simp add: pair_events_3d_def pair_events_2d_def Let_def sort_path_by_time_lift
        start_time_lift end_time_lift sample_event_lift_fun map_map_filter)
qed

lemma entry_pairs_map: "entry_pairs (map f xs) = map (map_prod f f) (entry_pairs xs)"
  by (induction xs) simp_all

lemma fleet_events_lift:
  "fleet_events_3d (lift_fleet fleet) sd ts = map lift_event (fleet_events_2d fleet sd ts)"
  by (simp add: fleet_events_3d_def fleet_events_2d_def lift_fleet_def entry_pairs_map
      map_concat comp_def case_prod_unfold pair_events_lift)

text \<open>
  Claim C9. The 3D detector run on a 2D fleet whose waypoints \<open>(x, y, t)\<close> are lifted to
  \<open>(x, y, 0, t)\<close> returns the report of the 2D detector with every event lifted: same
  status, the same events in the same order with the same time, distance and pair, and
  each location extended by a third coordinate 0.
\<close>

theorem detector_3d_on_lifted_fleet:
  "check_all_paths_conflict_3d (lift_fleet fleet) sd ts =
     map_option lift_report (check_all_paths_conflict_2d fleet sd ts)
   \<and> (\<exists>r2 r3. check_all_paths_conflict_2d fleet sd ts = Some r2
        \<and> check_all_paths_conflict_3d (lift_fleet fleet) sd ts = Some r3
        \<and> status r3 = status r2
        \<and> conflicts_of r3 = map lift_event (conflicts_of r2)
        \<and> map time (conflicts_of r3) = map time (conflicts_of r2)
        \<and> map distance (conflicts_of r3) = map distance (conflicts_of r2)
        \<and> map between (conflicts_of r3) = map between (conflicts_of r2)
        \<and> map location (conflicts_of r3) = map (\<lambda>e. lift_point (location e)) (conflicts_of r2))"
proof -
  have fields: "map time (map lift_event es) = map time es"
      "map distance (map lift_event es) = map distance es"
      "map between (map lift_event es) = map between es"
      "map location (map lift_event es) = map (\<lambda>e. lift_point (location e)) es"
    for es :: "point_2d conflict_event list"
    by (simp_all add: lift_event_def lift_point_def comp_def)
  show ?thesis
    using fields [of "fleet_events_2d fleet sd ts"]
    by (simp add: check_all_paths_conflict_3d_eq check_all_paths_conflict_2d_eq
        fleet_events_lift)
qed

section \<open>The sample times in exact arithmetic\<close>

lemma sample_times_closed:
  "0 < step \<Longrightarrow>
   sample_times step e t = map (\<lambda>i. t + real i * step) [0..<nat (\<lfloor>(e - t) / step\<rfloor> + 1)]"
proof (induction step e t rule: sample_times.induct)
  case (1 step e t)
  show ?case
  proof (cases "t \<le> e")
    case True
    define M where "M = \<lfloor>(e - t) / step\<rfloor>"
    have M0: "0 \<le> M" using True "1.prems" by (simp add: M_def)
    have "(e - (t + step)) / step = (e - t) / step - 1"
      using "1.prems" by (simp add: field_simps)
    then have next_count: "\<lfloor>(e - (t + step)) / step\<rfloor> + 1 = M" by (simp add: M_def)
    have "sample_times step e t = t # sample_times step e (t + step)"
      using True "1.prems" by (subst sample_times.simps) simp
    also have "\<dots> = t # map (\<lambda>i. t + step + real i * step) [0..<nat M]"
      using "1.IH" True "1.prems" next_count by simp
    also have "map (\<lambda>i. t + step + real i * step) [0..<nat M]
        = map (\<lambda>i. t + real i * step) (map Suc [0..<nat M])"
      by (simp add: algebra_simps)
    also have "t # map (\<lambda>i. t + real i * step) (map Suc [0..<nat M])
        = map (\<lambda>i. t + real i * step) (0 # map Suc [0..<nat M])"
      by simp
    also have "0 # map Suc [0..<nat M] = [0..<Suc (nat M)]"
      by (simp add: map_Suc_upt upt_conv_Cons)
    also have "Suc (nat M) = nat (M + 1)" using M0 by simp
    finally show ?thesis by (simp add: M_def)
  next
    case False
    then have "(e - t) / step < 0" using "1.prems" by (simp add: field_simps)
    then have "\<lfloor>(e - t) / step\<rfloor> < 0" by (rule iffD2 [OF floor_less_zero])
    then have "nat (\<lfloor>(e - t) / step\<rfloor> + 1) = 0" by arith
    moreover have "sample_times step e t = []"
      using False by (subst sample_times.simps) simp
    ultimately show ?thesis by simp
  qed
qed

lemma sample_times_from_start:
  assumes "0 < step"
  shows "sample_times step e (s + step) =
     map (\<lambda>m. s + real m * step) [1..<Suc (nat \<lfloor>(e - s) / step\<rfloor>)]"
proof -
  have "(e - (s + step)) / step = (e - s) / step - 1"
    using assms by (simp add: field_simps)
  then have "\<lfloor>(e - (s + step)) / step\<rfloor> + 1 = \<lfloor>(e - s) / step\<rfloor>" by simp
  then have "sample_times step e (s + step) =
      map (\<lambda>i. s + step + real i * step) [0..<nat \<lfloor>(e - s) / step\<rfloor>]"
    using sample_times_closed [OF assms, of e "s + step"] by simp
  also have "\<dots> = map (\<lambda>m. s + real m * step) (map Suc [0..<nat \<lfloor>(e - s) / step\<rfloor>])"
    by (simp add: algebra_simps)
  also have "map Suc [0..<nat \<lfloor>(e - s) / step\<rfloor>] = [1..<Suc (nat \<lfloor>(e - s) / step\<rfloor>)]"
    by (simp add: map_Suc_upt)
  finally show ?thesis .
qed

lemma sample_times_twentieth:
  assumes "0 < e - s"
  shows "sample_times ((e - s) / 20) e (s + (e - s) / 20) =
     map (\<lambda>m. s + real m * ((e - s) / 20)) [1..<21]"
proof -
  define d where "d = e - s"
  have d: "0 < d" using assms by (simp add: d_def)
  then have "d / (d / 20) = 20" by simp
  then have "nat \<lfloor>d / (d / 20)\<rfloor> = 20" by simp
  then have "nat \<lfloor>(e - s) / ((e - s) / 20)\<rfloor> = 20" by (simp only: d_def)
  moreover have "0 < (e - s) / 20" using assms by simp
  ultimately show ?thesis
    using sample_times_from_start [of "(e - s) / 20" e s] by (simp only:) simp
qed

lemma interior_of_twentieths:
  assumes "0 < e - s"
  shows "filter (\<lambda>t. s < t \<and> t < e) (map (\<lambda>m. s + real m * ((e - s) / 20)) [1..<21]) =
     map (\<lambda>m. s + real m * ((e - s) / 20)) [1..<20]"
proof -
  define d where "d = e - s"
  have d: "0 < d" using assms by (simp add: d_def)
  have e: "e = s + d" by (simp add: d_def)
  have in_iff: "(s < s + real m * (d / 20) \<and> s + real m * (d / 20) < e) = (m < 20)"
    if "m \<in> set [1..<21]" for m
  proof -
    have m1: "0 < real m" using that by simp
    have "real m * (d / 20) < d \<longleftrightarrow> real m * d < 20 * d"
      by (simp add: field_simps)
    also have "\<dots> \<longleftrightarrow> real m < 20" using d by (simp only: mult_less_cancel_right_pos)
    finally have "real m * (d / 20) < d \<longleftrightarrow> m < 20" by simp
    moreover have "0 < real m * (d / 20)" using m1 d by simp
    ultimately show ?thesis unfolding e by simp
  qed
  have "filter (\<lambda>t. s < t \<and> t < e) (map (\<lambda>m. s + real m * (d / 20)) [1..<21]) =
      map (\<lambda>m. s + real m * (d / 20))
        (filter (\<lambda>m. s < s + real m * (d / 20) \<and> s + real m * (d / 20) < e) [1..<21])"
    by (simp only: filter_map comp_def)
  also have "filter (\<lambda>m. s < s + real m * (d / 20) \<and> s + real m * (d / 20) < e) [1..<21]
      = filter (\<lambda>m. m < 20) [1..<21]"
    by (rule filter_cong [OF refl]) (rule in_iff)
  also have "filter (\<lambda>m. m < 20) [1..<21] = [1..<20]"
  proof -
    have "[1..<21] = [1..<20] @ [20 :: nat]" by (simp add: upt_rec)
    then show ?thesis by simp
  qed
  finally show ?thesis by (simp only: d_def)
qed

text \<open>
  In exact arithmetic, a step of a twentieth of a positive window makes the loop visit
  \<open>start + m * (end - start) / 20\<close> for \<open>m = 1, \<dots>, 20\<close>; the first nineteen lie strictly
  inside the window. The code accumulates \<open>t += effective_step\<close> in floating point, where
  the sum is rounded at every step, so the number of times it visits is not fixed by this.
\<close>

lemma twentieth_step_interior_exact:
  assumes "0 < end_time - start_time"
  shows "length (filter (\<lambda>t. start_time < t \<and> t < end_time)
          (sample_times ((end_time - start_time) / 20) end_time
             (start_time + (end_time - start_time) / 20))) = 19"
  unfolding sample_times_twentieth [OF assms] interior_of_twentieths [OF assms]
  by simp

section \<open>Changing the time step\<close>

lemma pair_events_2d_adaptive:
  assumes "ts' \<le> ts" and "scanned_2d e1 e2 \<longrightarrow> pair_duration_2d e1 e2 \<le> ts'"
  shows "pair_events_2d sd ts' e1 e2 = pair_events_2d sd ts e1 e2"
proof (cases "scanned_2d e1 e2")
  case False
  then have "length (snd e1) < 2 \<or> length (snd e2) < 2 \<or> pair_duration_2d e1 e2 \<le> 0"
    by (auto simp: scanned_2d_def)
  then show ?thesis
    by (auto simp: pair_events_2d_def Let_def pair_duration_2d_def sort_path_by_time_2d_def)
next
  case True
  with assms have "pair_duration_2d e1 e2 \<le> ts'" "pair_duration_2d e1 e2 \<le> ts" by simp_all
  then have "effective_step ts' (pair_duration_2d e1 e2)
      = effective_step ts (pair_duration_2d e1 e2)"
    by (simp add: effective_step_def)
  then show ?thesis
    by (simp only: pair_events_2d_def Let_def pair_duration_2d_def)
qed

lemma fleet_events_2d_adaptive:
  assumes "ts' \<le> ts"
    and "\<forall>(e1, e2) \<in> set (entry_pairs fleet). scanned_2d e1 e2 \<longrightarrow> pair_duration_2d e1 e2 \<le> ts'"
  shows "fleet_events_2d fleet sd ts' = fleet_events_2d fleet sd ts"
proof -
  have "(case p of (e1, e2) \<Rightarrow> pair_events_2d sd ts' e1 e2)
      = (case p of (e1, e2) \<Rightarrow> pair_events_2d sd ts e1 e2)"
    if "p \<in> set (entry_pairs fleet)" for p
  proof -
    obtain e1 e2 where p: "p = (e1, e2)" by (cases p)
    with that assms(2) have "scanned_2d e1 e2 \<longrightarrow> pair_duration_2d e1 e2 \<le> ts'" by auto
    with assms(1) show ?thesis unfolding p by (simp add: pair_events_2d_adaptive)
  qed
  then have "map (\<lambda>(e1, e2). pair_events_2d sd ts' e1 e2) (entry_pairs fleet)
      = map (\<lambda>(e1, e2). pair_events_2d sd ts e1 e2) (entry_pairs fleet)"
    by (intro map_cong refl)
  then show ?thesis by (simp only: fleet_events_2d_def)
qed

lemma pair_events_3d_adaptive:
  assumes "ts' \<le> ts" and "scanned_3d e1 e2 \<longrightarrow> pair_duration_3d e1 e2 \<le> ts'"
  shows "pair_events_3d sd ts' e1 e2 = pair_events_3d sd ts e1 e2"
proof (cases "scanned_3d e1 e2")
  case False
  then have "length (snd e1) < 2 \<or> length (snd e2) < 2 \<or> pair_duration_3d e1 e2 \<le> 0"
    by (auto simp: scanned_3d_def)
  then show ?thesis
    by (auto simp: pair_events_3d_def Let_def pair_duration_3d_def sort_path_by_time_3d_def)
next
  case True
  with assms have "pair_duration_3d e1 e2 \<le> ts'" "pair_duration_3d e1 e2 \<le> ts" by simp_all
  then have "effective_step ts' (pair_duration_3d e1 e2)
      = effective_step ts (pair_duration_3d e1 e2)"
    by (simp add: effective_step_def)
  then show ?thesis
    by (simp only: pair_events_3d_def Let_def pair_duration_3d_def)
qed

lemma fleet_events_3d_adaptive:
  assumes "ts' \<le> ts"
    and "\<forall>(e1, e2) \<in> set (entry_pairs fleet). scanned_3d e1 e2 \<longrightarrow> pair_duration_3d e1 e2 \<le> ts'"
  shows "fleet_events_3d fleet sd ts' = fleet_events_3d fleet sd ts"
proof -
  have "(case p of (e1, e2) \<Rightarrow> pair_events_3d sd ts' e1 e2)
      = (case p of (e1, e2) \<Rightarrow> pair_events_3d sd ts e1 e2)"
    if "p \<in> set (entry_pairs fleet)" for p
  proof -
    obtain e1 e2 where p: "p = (e1, e2)" by (cases p)
    with that assms(2) have "scanned_3d e1 e2 \<longrightarrow> pair_duration_3d e1 e2 \<le> ts'" by auto
    with assms(1) show ?thesis unfolding p by (simp add: pair_events_3d_adaptive)
  qed
  then have "map (\<lambda>(e1, e2). pair_events_3d sd ts' e1 e2) (entry_pairs fleet)
      = map (\<lambda>(e1, e2). pair_events_3d sd ts e1 e2) (entry_pairs fleet)"
    by (intro map_cong refl)
  then show ?thesis by (simp only: fleet_events_3d_def)
qed

text \<open>
  Claim C1, as stated, fails: fixed-step sampling with a smaller step visits other times,
  not more of the same. One drone holds \<open>(0, 0)\<close>, the other flies from \<open>(-2, 0)\<close> to
  \<open>(8, 0)\<close> in ten seconds, passing the first at time 2. With safety distance \<open>0.25\<close>,
  time step 2 samples time 2 and reports one conflict, time step 1.5 samples
  \<open>1.5, 3, 4.5, \<dots>\<close> and reports none.
\<close>

theorem finer_step_counterexample:
  "(3 / 2 :: real) < 2 \<and> (0 :: real) < 3 / 2
   \<and> check_all_paths_conflict_2d
        [(''A'', [(0, 0, 0), (0, 0, 10)]), (''B'', [(- 2, 0, 0), (8, 0, 10)])] (1 / 4) 2
      = Some (CONFLICT [\<lparr>time = 2, location = (0, 0), distance = 0, between = (''A'', ''B'')\<rparr>])
   \<and> check_all_paths_conflict_2d
        [(''A'', [(0, 0, 0), (0, 0, 10)]), (''B'', [(- 2, 0, 0), (8, 0, 10)])] (1 / 4) (3 / 2)
      = Some CLEAR
   \<and> \<not> length (conflicts_of
          (CONFLICT [\<lparr>time = 2, location = (0 :: real, 0 :: real), distance = 0,
             between = (''A'', ''B'')\<rparr>]))
        \<le> length (conflicts_of (CLEAR :: point_2d report))"
  by (simp add: eval_2d)

text \<open>
  Claim C1, amended. If \<open>time_step' < time_step\<close> and \<open>time_step'\<close> is at least the overlap
  duration of every pair that is sampled (both paths have at least two waypoints and the
  overlap is positive), then both runs sample every pair with the same adaptive step, a
  twentieth of its overlap: they give the same result, so the run with \<open>time_step'\<close>
  reports as many conflict events as the run with \<open>time_step\<close>, not fewer. Both modules.
\<close>

theorem adaptive_steps_same_conflicts:
  assumes "time_step' < time_step"
  shows "((\<forall>(e1, e2) \<in> set (entry_pairs fleet2).
             scanned_2d e1 e2 \<longrightarrow> pair_duration_2d e1 e2 \<le> time_step') \<longrightarrow>
          check_all_paths_conflict_2d fleet2 sd time_step'
            = check_all_paths_conflict_2d fleet2 sd time_step
          \<and> (\<exists>r r'. check_all_paths_conflict_2d fleet2 sd time_step = Some r
             \<and> check_all_paths_conflict_2d fleet2 sd time_step' = Some r'
             \<and> length (conflicts_of r) \<le> length (conflicts_of r')))
       \<and> ((\<forall>(e1, e2) \<in> set (entry_pairs fleet3).
             scanned_3d e1 e2 \<longrightarrow> pair_duration_3d e1 e2 \<le> time_step') \<longrightarrow>
          check_all_paths_conflict_3d fleet3 sd time_step'
            = check_all_paths_conflict_3d fleet3 sd time_step
          \<and> (\<exists>r r'. check_all_paths_conflict_3d fleet3 sd time_step = Some r
             \<and> check_all_paths_conflict_3d fleet3 sd time_step' = Some r'
             \<and> length (conflicts_of r) \<le> length (conflicts_of r')))"
proof (intro conjI impI)
  assume h: "\<forall>(e1, e2) \<in> set (entry_pairs fleet2).
      scanned_2d e1 e2 \<longrightarrow> pair_duration_2d e1 e2 \<le> time_step'"
  have "fleet_events_2d fleet2 sd time_step' = fleet_events_2d fleet2 sd time_step"
    using assms h by (intro fleet_events_2d_adaptive) simp_all
  then show same: "check_all_paths_conflict_2d fleet2 sd time_step'
      = check_all_paths_conflict_2d fleet2 sd time_step"
    by (simp only: check_all_paths_conflict_2d_eq)
  obtain r where r: "check_all_paths_conflict_2d fleet2 sd time_step = Some r"
    by (rule check_all_paths_conflict_2d_returns)
  with same show "\<exists>r r'. check_all_paths_conflict_2d fleet2 sd time_step = Some r
      \<and> check_all_paths_conflict_2d fleet2 sd time_step' = Some r'
      \<and> length (conflicts_of r) \<le> length (conflicts_of r')"
    by simp
next
  assume h: "\<forall>(e1, e2) \<in> set (entry_pairs fleet3).
      scanned_3d e1 e2 \<longrightarrow> pair_duration_3d e1 e2 \<le> time_step'"
  have "fleet_events_3d fleet3 sd time_step' = fleet_events_3d fleet3 sd time_step"
    using assms h by (intro fleet_events_3d_adaptive) simp_all
  then show same: "check_all_paths_conflict_3d fleet3 sd time_step'
      = check_all_paths_conflict_3d fleet3 sd time_step"
    by (simp only: check_all_paths_conflict_3d_eq)
  obtain r where r: "check_all_paths_conflict_3d fleet3 sd time_step = Some r"
    by (rule check_all_paths_conflict_3d_returns)
  with same show "\<exists>r r'. check_all_paths_conflict_3d fleet3 sd time_step = Some r
      \<and> check_all_paths_conflict_3d fleet3 sd time_step' = Some r'
      \<and> length (conflicts_of r) \<le> length (conflicts_of r')"
    by simp
qed

theorem adaptive_steps_same_conflicts_witness:
  "(10 :: real) < 20
   \<and> scanned_2d (''A'', [(0, 0, 0), (0, 0, 10)]) (''B'', [(- 2, 0, 0), (8, 0, 10)])
   \<and> pair_duration_2d (''A'', [(0, 0, 0), (0, 0, 10)]) (''B'', [(- 2, 0, 0), (8, 0, 10)]) \<le> 10
   \<and> check_all_paths_conflict_2d
        [(''A'', [(0, 0, 0), (0, 0, 10)]), (''B'', [(- 2, 0, 0), (8, 0, 10)])] (1 / 4) 10
      = Some (CONFLICT [\<lparr>time = 2, location = (0, 0), distance = 0, between = (''A'', ''B'')\<rparr>])
   \<and> check_all_paths_conflict_2d
        [(''A'', [(0, 0, 0), (0, 0, 10)]), (''B'', [(- 2, 0, 0), (8, 0, 10)])] (1 / 4) 20
      = Some (CONFLICT [\<lparr>time = 2, location = (0, 0), distance = 0, between = (''A'', ''B'')\<rparr>])
   \<and> scanned_3d (''A'', [(0, 0, 0, 0), (0, 0, 0, 10)]) (''B'', [(- 2, 0, 0, 0), (8, 0, 0, 10)])
   \<and> pair_duration_3d (''A'', [(0, 0, 0, 0), (0, 0, 0, 10)]) (''B'', [(- 2, 0, 0, 0), (8, 0, 0, 10)])
       \<le> 10
   \<and> check_all_paths_conflict_3d
        [(''A'', [(0, 0, 0, 0), (0, 0, 0, 10)]), (''B'', [(- 2, 0, 0, 0), (8, 0, 0, 10)])] (1 / 4) 10
      = check_all_paths_conflict_3d
        [(''A'', [(0, 0, 0, 0), (0, 0, 0, 10)]), (''B'', [(- 2, 0, 0, 0), (8, 0, 0, 10)])] (1 / 4) 20"
  using adaptive_steps_same_conflicts
    [where time_step' = 10 and time_step = 20 and sd = "1 / 4"
       and ?fleet2.0 = "[(''A'', [(0, 0, 0), (0, 0, 10)]), (''B'', [(- 2, 0, 0), (8, 0, 10)])]"
       and ?fleet3.0 = "[(''A'', [(0, 0, 0, 0), (0, 0, 0, 10)]), (''B'', [(- 2, 0, 0, 0), (8, 0, 0, 10)])]"]
  by (simp add: scanned_2d_def pair_duration_2d_def scanned_3d_def pair_duration_3d_def eval_2d
      sort_path_by_time_3d_def start_time_3d_def end_time_3d_def timestamp_3d_def)

end
